theory Spec2Isabelle
  imports Main
begin

section \<open>JavaScript values used by the manifest endpoint\<close>

text \<open>
  The endpoint (\<^verbatim>\<open>src/unnamed/part_000\<close>) is a TypeScript route handler. Strings are
  modelled as \<^typ>\<open>string\<close> (header values are byte strings), \<^verbatim>\<open>null\<close> as \<^term>\<open>None\<close>.
  A number produced by \<^verbatim>\<open>parseInt\<close> is either \<^verbatim>\<open>NaN\<close> or an integer. The code compares it
  with 0 and 1 and prints it; the integer is kept exact, which a double is below
  \<open>2 ^ 53\<close> (rounding a larger integer never yields 0 or 1; the printed form of such an
  integer, rounded and from \<open>10 ^ 21\<close> on in exponent notation, is not modelled).
\<close>

datatype jsnum = NaN | Num int

datatype json =
    JNull
  | JBool bool
  | JNum int
  | JStr string
  | JArr "json list"
  | JObj "(string \<times> json) list"

text \<open>Truthiness of a \<^verbatim>\<open>string | null\<close>: \<^verbatim>\<open>null\<close> and the empty string are falsy.\<close>

definition truthy :: "string option \<Rightarrow> bool" where
  "truthy v = (case v of None \<Rightarrow> False | Some s \<Rightarrow> s \<noteq> [])"

text \<open>\<^verbatim>\<open>Array.isArray\<close> applied to a value of type \<^verbatim>\<open>string | null\<close>.\<close>

definition Array_isArray :: "string option \<Rightarrow> bool" where
  "Array_isArray v = False"

subsection \<open>\<^verbatim>\<open>parseInt(s, 10)\<close> and \<^verbatim>\<open>Number.prototype.toString\<close>\<close>

definition StrWhiteSpaceChar :: "char \<Rightarrow> bool" where
  "StrWhiteSpaceChar c =
     (c \<in> set [CHR 0x09, CHR 0x0A, CHR 0x0B, CHR 0x0C, CHR 0x0D, CHR 0x20, CHR 0xA0])"

definition digit_value :: "char \<Rightarrow> nat option" where
  "digit_value =
     map_of [(CHR ''0'', 0), (CHR ''1'', 1), (CHR ''2'', 2), (CHR ''3'', 3), (CHR ''4'', 4),
             (CHR ''5'', 5), (CHR ''6'', 6), (CHR ''7'', 7), (CHR ''8'', 8), (CHR ''9'', 9)]"

definition digits_value :: "string \<Rightarrow> nat" where
  "digits_value Z =
     foldl (\<lambda>n c. 10 * n + (case digit_value c of None \<Rightarrow> 0 | Some d \<Rightarrow> d)) 0 Z"

definition parseInt :: "string \<Rightarrow> jsnum" where
  "parseInt inputString =
     (let S = dropWhile StrWhiteSpaceChar inputString;
          sign = (if S \<noteq> [] \<and> hd S = CHR ''-'' then - 1 else (1::int));
          S1 = (if S \<noteq> [] \<and> (hd S = CHR ''+'' \<or> hd S = CHR ''-'') then tl S else S);
          Z = takeWhile (\<lambda>c. digit_value c \<noteq> None) S1
      in if Z = [] then NaN else Num (sign * int (digits_value Z)))"

definition digit_char :: "nat \<Rightarrow> char" where
  "digit_char d = ''0123456789abcdef'' ! (d mod 16)"

function show_nat :: "nat \<Rightarrow> string" where
  "show_nat n = (if n < 10 then [digit_char n] else show_nat (n div 10) @ [digit_char (n mod 10)])"
  by pat_completeness auto
termination
  by (relation "measure (\<lambda>n. n)") auto

declare show_nat.simps [simp del]

definition show_int :: "int \<Rightarrow> string" where
  "show_int i = (if i < 0 then CHR ''-'' # show_nat (nat (- i)) else show_nat (nat i))"

definition Number_toString :: "jsnum \<Rightarrow> string" where
  "Number_toString n = (case n of NaN \<Rightarrow> ''NaN'' | Num i \<Rightarrow> show_int i)"

subsection \<open>\<^verbatim>\<open>JSON.stringify\<close>\<close>

definition quote_char :: "char \<Rightarrow> string" where
  "quote_char c =
     (if c = CHR 0x22 then [CHR 0x5C, CHR 0x22]
      else if c = CHR 0x5C then [CHR 0x5C, CHR 0x5C]
      else if c = CHR 0x08 then [CHR 0x5C, CHR ''b'']
      else if c = CHR 0x09 then [CHR 0x5C, CHR ''t'']
      else if c = CHR 0x0A then [CHR 0x5C, CHR ''n'']
      else if c = CHR 0x0C then [CHR 0x5C, CHR ''f'']
      else if c = CHR 0x0D then [CHR 0x5C, CHR ''r'']
      else if (of_char c :: nat) < 32
        then [CHR 0x5C, CHR ''u'', CHR ''0'', CHR ''0'',
              digit_char (of_char c div 16), digit_char (of_char c mod 16)]
      else [c])"

definition QuoteJSONString :: "string \<Rightarrow> string" where
  "QuoteJSONString s = [CHR 0x22] @ concat (map quote_char s) @ [CHR 0x22]"

fun join :: "string \<Rightarrow> string list \<Rightarrow> string" where
  "join sep [] = []"
| "join sep [x] = x"
| "join sep (x # y # ys) = x @ sep @ join sep (y # ys)"

fun JSON_stringify :: "json \<Rightarrow> string"
  and stringify_elements :: "json list \<Rightarrow> string list"
  and stringify_members :: "(string \<times> json) list \<Rightarrow> string list"
where
  "JSON_stringify JNull = ''null''"
| "JSON_stringify (JBool b) = (if b then ''true'' else ''false'')"
| "JSON_stringify (JNum i) = show_int i"
| "JSON_stringify (JStr s) = QuoteJSONString s"
| "JSON_stringify (JArr xs) = ''['' @ join '','' (stringify_elements xs) @ '']''"
| "JSON_stringify (JObj ms) = ''{'' @ join '','' (stringify_members ms) @ ''}''"
| "stringify_elements [] = []"
| "stringify_elements (x # xs) = JSON_stringify x # stringify_elements xs"
| "stringify_members [] = []"
| "stringify_members ((k, v) # ms) =
     (QuoteJSONString k @ '':'' @ JSON_stringify v) # stringify_members ms"

subsection \<open>Property access and assignment on plain objects\<close>

text \<open>
  A plain object is the list of its own properties in enumeration order. Reading a
  missing property gives \<^verbatim>\<open>undefined\<close> (\<^term>\<open>None\<close>). A property key is the string of
  the value used as key.
\<close>

definition get_prop :: "json \<Rightarrow> string \<Rightarrow> json option" where
  "get_prop v k = (case v of JObj ms \<Rightarrow> map_of ms k | _ \<Rightarrow> None)"

fun js_ToString :: "json \<Rightarrow> string"
  and elements_ToString :: "json list \<Rightarrow> string list"
where
  "js_ToString JNull = ''null''"
| "js_ToString (JBool b) = (if b then ''true'' else ''false'')"
| "js_ToString (JNum i) = show_int i"
| "js_ToString (JStr s) = s"
| "js_ToString (JArr xs) = join '','' (elements_ToString xs)"
| "js_ToString (JObj ms) = ''[object Object]''"
| "elements_ToString [] = []"
| "elements_ToString (x # xs) =
     (case x of JNull \<Rightarrow> [] | _ \<Rightarrow> js_ToString x) # elements_ToString xs"

definition ToPropertyKey :: "json option \<Rightarrow> string" where
  "ToPropertyKey v = (case v of None \<Rightarrow> ''undefined'' | Some x \<Rightarrow> js_ToString x)"

text \<open>
  Own string keys that are array indices (canonical decimal numerals below \<open>2^32 - 1\<close>)
  are enumerated first, in ascending numeric order; all other keys follow in insertion
  order. Assigning to an existing key keeps its position.
\<close>

definition is_array_index :: "string \<Rightarrow> bool" where
  "is_array_index k =
     (k \<noteq> [] \<and> list_all (\<lambda>c. digit_value c \<noteq> None) k \<and> (k = ''0'' \<or> hd k \<noteq> CHR ''0'')
      \<and> digits_value k < 4294967295)"

fun insert_index :: "string \<Rightarrow> json \<Rightarrow> (string \<times> json) list \<Rightarrow> (string \<times> json) list" where
  "insert_index k v [] = [(k, v)]"
| "insert_index k v ((k', v') # ms) =
     (if is_array_index k' \<and> digits_value k' < digits_value k
      then (k', v') # insert_index k v ms
      else (k, v) # (k', v') # ms)"

definition set_prop :: "(string \<times> json) list \<Rightarrow> string \<Rightarrow> json \<Rightarrow> (string \<times> json) list" where
  "set_prop ms k v =
     (if k \<in> set (map fst ms) then map (\<lambda>(k', v'). if k' = k then (k', v) else (k', v')) ms
      else if is_array_index k then insert_index k v ms
      else ms @ [(k, v)])"

section \<open>Requests, responses and the external collaborators\<close>

text \<open>
  \<^verbatim>\<open>req.headers.get(name)\<close> and \<^verbatim>\<open>new URL(req.url).searchParams.get(name)\<close> return a
  string or \<^verbatim>\<open>null\<close>.
\<close>

record request =
  req_method :: string
  req_headers :: "string \<Rightarrow> string option"
  req_searchParams :: "string \<Rightarrow> string option"

text \<open>
  One part appended to the \<^verbatim>\<open>FormData\<close>: the field name, the value, and the options
  \<^verbatim>\<open>contentType\<close> and \<^verbatim>\<open>header\<close>. The body of a response is either a string or the
  buffer of a form, kept as its boundary and its parts in order.
\<close>

record part =
  part_name :: string
  part_body :: string
  part_contentType :: string
  part_header :: "(string \<times> string) list"

datatype body = Text string | Form string "part list"

record response =
  resp_status :: nat
  resp_headers :: "(string \<times> string) list"
  resp_body :: body

datatype UpdateType = NORMAL_UPDATE | ROLLBACK

text \<open>
  Thrown values: the \<^verbatim>\<open>NoUpdateAvailableError\<close> raised at line 222, and \<^verbatim>\<open>Error\<close> instances
  with their message (thrown by this file, or the rejection of a collaborator).
\<close>

datatype exn = NoUpdateAvailableError | Error string

record asset_ref =
  asset_path :: string
  asset_ext :: string

record platform_metadata =
  pm_assets :: "asset_ref list"
  pm_bundle :: string

text \<open>The result of \<^verbatim>\<open>getMetadataAsync\<close>: \<^verbatim>\<open>{ metadataJson, createdAt, id }\<close>.\<close>

record metadata =
  md_id :: string
  md_createdAt :: string
  md_fileMetadata :: "string \<Rightarrow> platform_metadata option"

text \<open>The argument object of \<^verbatim>\<open>getAssetMetadataAsync\<close>.\<close>

record asset_arg =
  arg_updateBundlePath :: string
  arg_filePath :: string
  arg_ext :: "string option"
  arg_runtimeVersion :: string
  arg_platform :: string
  arg_isLaunchAsset :: bool

text \<open>
  The helpers imported from \<^verbatim>\<open>@/common/helpers\<close>, \<^verbatim>\<open>fs.readdir\<close>, the structured-header
  serializer and the boundary drawn by \<^verbatim>\<open>FormData\<close> are not part of the source files; they
  are parameters of the model. An awaited helper either resolves (\<^term>\<open>Inr\<close>) or rejects
  with an \<^verbatim>\<open>Error\<close> carrying a message (\<^term>\<open>Inl\<close>). The synchronous primitives are
  functions. Asset descriptors, the app config and the directives are JSON values.
\<close>

record env =
  getLatestUpdateBundlePathForRuntimeVersionAsync :: "string \<Rightarrow> string + string"
  readdir :: "string \<Rightarrow> string + string list"
  getMetadataAsync :: "string \<Rightarrow> string \<Rightarrow> string + metadata"
  getExpoConfigAsync :: "string \<Rightarrow> string \<Rightarrow> string + json"
  getAssetMetadataAsync :: "asset_arg \<Rightarrow> string + json"
  getPrivateKeyAsync :: "string + string option"
  createRollBackDirectiveAsync :: "string \<Rightarrow> string + json"
  createNoUpdateAvailableDirectiveAsync :: json
  convertSHA256HashToUUID :: "string \<Rightarrow> string"
  signRSASHA256 :: "string \<Rightarrow> string \<Rightarrow> string"
  convertToDictionaryItemsRepresentation :: "(string \<times> string) list \<Rightarrow> (string \<times> string) list"
  serializeDictionary :: "(string \<times> string) list \<Rightarrow> string"
  getBoundary :: string

text \<open>What the handler does to the outside while it runs, in order.\<close>

datatype call =
    Call_getLatestUpdateBundlePathForRuntimeVersionAsync string
  | Call_readdir string
  | Call_getMetadataAsync string string
  | Call_getExpoConfigAsync string string
  | Call_getAssetMetadataAsync asset_arg
  | Call_getPrivateKeyAsync
  | Call_signRSASHA256 string string
  | Call_createRollBackDirectiveAsync string
  | Call_createNoUpdateAvailableDirectiveAsync
  | Console_log string
  | Console_error exn

subsection \<open>Asynchronous computations\<close>

text \<open>
  The outcome of an \<^verbatim>\<open>async\<close> function: it rejects with a thrown value or resolves with
  a result, and has made the listed calls.
\<close>

type_synonym 'a promise = "(exn + 'a) \<times> call list"

definition resolved :: "'a \<Rightarrow> 'a promise" where
  "resolved x = (Inr x, [])"

definition rejected :: "exn \<Rightarrow> 'a promise" where
  "rejected e = (Inl e, [])"

definition invoke :: "call \<Rightarrow> string + 'a \<Rightarrow> 'a promise" where
  "invoke c r = (case r of Inl msg \<Rightarrow> (Inl (Error msg), [c]) | Inr x \<Rightarrow> (Inr x, [c]))"

definition await :: "'a promise \<Rightarrow> ('a \<Rightarrow> 'b promise) \<Rightarrow> 'b promise" where
  "await m f =
     (case m of
        (Inl e, t) \<Rightarrow> (Inl e, t)
      | (Inr x, t) \<Rightarrow> (case f x of (r, t') \<Rightarrow> (r, t @ t')))"

definition try_catch :: "'a promise \<Rightarrow> (exn \<Rightarrow> 'a promise) \<Rightarrow> 'a promise" where
  "try_catch m h =
     (case m of
        (Inl e, t) \<Rightarrow> (case h e of (r, t') \<Rightarrow> (r, t @ t'))
      | (Inr x, t) \<Rightarrow> (Inr x, t))"

text \<open>
  \<^verbatim>\<open>Promise.all\<close> over calls that have all been started: every call is made; the result
  is the list of results in the order of the input, or a rejection (the first one in the
  order of the input).
\<close>

fun collect :: "(exn + 'a) list \<Rightarrow> exn + 'a list" where
  "collect [] = Inr []"
| "collect (Inl e # rs) = Inl e"
| "collect (Inr x # rs) = (case collect rs of Inl e \<Rightarrow> Inl e | Inr xs \<Rightarrow> Inr (x # xs))"

definition Promise_all :: "'a promise list \<Rightarrow> 'a list promise" where
  "Promise_all ms = (collect (map fst ms), concat (map snd ms))"

section \<open>The route handler\<close>

subsection \<open>The signing block\<close>

text \<open>
  Lines 156-173, 227-244 and 277-294 are the same text, applied to the manifest or the
  directive. The block either returns from the enclosing function with a response
  (\<^term>\<open>Inl\<close>) or leaves \<^verbatim>\<open>signature\<close> set to \<^verbatim>\<open>null\<close> or to the serialized dictionary
  (\<^term>\<open>Inr\<close>). \<^verbatim>\<open>!privateKey\<close> holds for \<^verbatim>\<open>null\<close> and for the empty string.
\<close>

definition no_key_response :: response where
  "no_key_response =
     \<lparr> resp_status = 400,
       resp_headers = [(''content-type'', ''application/json'')],
       resp_body = Text (JSON_stringify (JObj
         [(''error'', JStr ''Code signing requested but no key supplied when starting server.'')])) \<rparr>"

definition signature_value :: "env \<Rightarrow> string \<Rightarrow> string \<Rightarrow> string" where
  "signature_value env payloadString privateKey =
     (let hashSignature = signRSASHA256 env payloadString privateKey;
          dictionary = convertToDictionaryItemsRepresentation env
            [(''sig'', hashSignature), (''keyid'', ''main'')]
      in serializeDictionary env dictionary)"

definition signing_block :: "env \<Rightarrow> request \<Rightarrow> json \<Rightarrow> (response + string option) promise" where
  "signing_block env req payload =
     (let expectSignatureHeader = req_headers req ''expo-expect-signature'' in
      if truthy expectSignatureHeader then
        await (invoke Call_getPrivateKeyAsync (getPrivateKeyAsync env)) (\<lambda>privateKey.
          case privateKey of
            None \<Rightarrow> resolved (Inl no_key_response)
          | Some key \<Rightarrow>
              if key = [] then resolved (Inl no_key_response)
              else
                (let payloadString = JSON_stringify payload
                 in (Inr (Inr (Some (signature_value env payloadString key))),
                     [Call_signRSASHA256 payloadString key])))
      else resolved (Inr None))"

text \<open>
  The \<^verbatim>\<open>header\<close> option of the payload part:
  \<^verbatim>\<open>...(signature ? { 'expo-signature': signature } : {})\<close>; the empty string is falsy.
\<close>

definition payload_header :: "string option \<Rightarrow> (string \<times> string) list" where
  "payload_header signature =
     (''content-type'', ''application/json; charset=utf-8'') #
     (case signature of
        None \<Rightarrow> []
      | Some sg \<Rightarrow> if sg = [] then [] else [(''expo-signature'', sg)])"

subsection \<open>The directive functions (lines 205-264 and 266-314)\<close>

text \<open>
  Lines 246-263 and 296-313 are the same text: one part named \<^verbatim>\<open>directive\<close>, and the
  literal \<^verbatim>\<open>'1'\<close> as protocol version.
\<close>

definition directive_response :: "env \<Rightarrow> json \<Rightarrow> string option \<Rightarrow> response" where
  "directive_response env directive signature =
     \<lparr> resp_status = 200,
       resp_headers =
         [(''expo-protocol-version'', ''1''),
          (''expo-sfv-version'', ''0''),
          (''cache-control'', ''private, max-age=0''),
          (''content-type'', ''multipart/mixed; boundary='' @ getBoundary env)],
       resp_body = Form (getBoundary env)
         [\<lparr> part_name = ''directive'',
            part_body = JSON_stringify directive,
            part_contentType = ''application/json'',
            part_header = payload_header signature \<rparr>] \<rparr>"

text \<open>Lines 227-263 and 277-313: the signing block, then the part and the response.\<close>

definition sign_and_frame_directive :: "env \<Rightarrow> request \<Rightarrow> json \<Rightarrow> response promise" where
  "sign_and_frame_directive env req directive =
     await (signing_block env req directive) (\<lambda>s.
       case s of
         Inl early \<Rightarrow> resolved early
       | Inr signature \<Rightarrow> resolved (directive_response env directive signature))"

definition putNoUpdateAvailableInResponseAsync :: "env \<Rightarrow> request \<Rightarrow> jsnum \<Rightarrow> response promise" where
  "putNoUpdateAvailableInResponseAsync env req protocolVersion =
     (if protocolVersion = Num 0
      then rejected (Error ''NoUpdateAvailable directive not available in protocol version 0'')
      else
        await (Inr (createNoUpdateAvailableDirectiveAsync env),
               [Call_createNoUpdateAvailableDirectiveAsync]) (\<lambda>directive.
        sign_and_frame_directive env req directive))"

definition putRollBackInResponseAsync ::
  "env \<Rightarrow> request \<Rightarrow> string \<Rightarrow> jsnum \<Rightarrow> response promise" where
  "putRollBackInResponseAsync env req updateBundlePath protocolVersion =
     (if protocolVersion = Num 0
      then rejected (Error ''Rollbacks not supported on protocol version 0'')
      else
        (let embeddedUpdateId = req_headers req ''expo-embedded-update-id'' in
         if \<not> truthy embeddedUpdateId
         then rejected (Error ''Invalid Expo-Embedded-Update-ID request header specified.'')
         else
           (let currentUpdateId = req_headers req ''expo-current-update-id'' in
            if currentUpdateId = embeddedUpdateId then rejected NoUpdateAvailableError
            else
              await (invoke (Call_createRollBackDirectiveAsync updateBundlePath)
                       (createRollBackDirectiveAsync env updateBundlePath)) (\<lambda>directive.
              sign_and_frame_directive env req directive))))"

subsection \<open>\<^verbatim>\<open>putUpdateInResponseAsync\<close> (lines 103-203)\<close>

text \<open>The response of the shortcut at line 118.\<close>

definition no_update_message_response :: response where
  "no_update_message_response =
     \<lparr> resp_status = 200,
       resp_headers = [],
       resp_body = Text (JSON_stringify (JObj [(''message'', JStr ''No update available'')])) \<rparr>"

text \<open>
  The manifest of lines 126-154 with its members in the order of the object literal;
  \<^verbatim>\<open>metadata\<close> is the empty object and \<^verbatim>\<open>extra\<close> holds \<^verbatim>\<open>expoClient\<close> only.
\<close>

record manifest =
  mf_id :: string
  mf_createdAt :: string
  mf_runtimeVersion :: string
  mf_assets :: "json list"
  mf_launchAsset :: json
  mf_expoClient :: json

definition manifest_json :: "manifest \<Rightarrow> json" where
  "manifest_json m =
     JObj [(''id'', JStr (mf_id m)),
           (''createdAt'', JStr (mf_createdAt m)),
           (''runtimeVersion'', JStr (mf_runtimeVersion m)),
           (''assets'', JArr (mf_assets m)),
           (''launchAsset'', mf_launchAsset m),
           (''metadata'', JObj []),
           (''extra'', JObj [(''expoClient'', mf_expoClient m)])]"

text \<open>The arguments of the two kinds of \<^verbatim>\<open>getAssetMetadataAsync\<close> calls.\<close>

definition asset_request :: "string \<Rightarrow> string \<Rightarrow> string \<Rightarrow> asset_ref \<Rightarrow> asset_arg" where
  "asset_request updateBundlePath runtimeVersion platform asset =
     \<lparr> arg_updateBundlePath = updateBundlePath,
       arg_filePath = asset_path asset,
       arg_ext = Some (asset_ext asset),
       arg_runtimeVersion = runtimeVersion,
       arg_platform = platform,
       arg_isLaunchAsset = False \<rparr>"

definition launch_request :: "string \<Rightarrow> string \<Rightarrow> string \<Rightarrow> platform_metadata \<Rightarrow> asset_arg" where
  "launch_request updateBundlePath runtimeVersion platform platformSpecificMetadata =
     \<lparr> arg_updateBundlePath = updateBundlePath,
       arg_filePath = pm_bundle platformSpecificMetadata,
       arg_ext = None,
       arg_runtimeVersion = runtimeVersion,
       arg_platform = platform,
       arg_isLaunchAsset = True \<rparr>"

text \<open>
  Reading \<^verbatim>\<open>.assets\<close> of \<^verbatim>\<open>metadataJson.fileMetadata[platform]\<close> when that is
  \<^verbatim>\<open>undefined\<close> throws a \<^verbatim>\<open>TypeError\<close>; its message is the engine's.
\<close>

definition undefined_assets_message :: string where
  "undefined_assets_message =
     ''Cannot read properties of undefined (reading '' @ [CHR 0x27] @ ''assets'' @ [CHR 0x27] @ '')''"

text \<open>Lines 121-154: the app config, the asset descriptors, the launch asset descriptor.\<close>

definition assembleManifest ::
  "env \<Rightarrow> string \<Rightarrow> string \<Rightarrow> string \<Rightarrow> metadata \<Rightarrow> manifest promise" where
  "assembleManifest env updateBundlePath runtimeVersion platform md =
     await (invoke (Call_getExpoConfigAsync updateBundlePath runtimeVersion)
              (getExpoConfigAsync env updateBundlePath runtimeVersion)) (\<lambda>expoConfig.
     case md_fileMetadata md platform of
       None \<Rightarrow> rejected (Error undefined_assets_message)
     | Some platformSpecificMetadata \<Rightarrow>
         await (Promise_all (map (\<lambda>asset.
                  invoke (Call_getAssetMetadataAsync
                            (asset_request updateBundlePath runtimeVersion platform asset))
                    (getAssetMetadataAsync env
                       (asset_request updateBundlePath runtimeVersion platform asset)))
                  (pm_assets platformSpecificMetadata))) (\<lambda>assets.
         await (invoke (Call_getAssetMetadataAsync
                          (launch_request updateBundlePath runtimeVersion platform
                             platformSpecificMetadata))
                  (getAssetMetadataAsync env
                     (launch_request updateBundlePath runtimeVersion platform
                        platformSpecificMetadata))) (\<lambda>launchAsset.
         resolved
           \<lparr> mf_id = convertSHA256HashToUUID env (md_id md),
             mf_createdAt = md_createdAt md,
             mf_runtimeVersion = runtimeVersion,
             mf_assets = assets,
             mf_launchAsset = launchAsset,
             mf_expoClient = expoConfig \<rparr>)))"

text \<open>The loop of lines 176-180: one assignment per asset, the launch asset last.\<close>

definition assetRequestHeaders_of :: "json list \<Rightarrow> (string \<times> json) list" where
  "assetRequestHeaders_of assets =
     foldl (\<lambda>obj asset.
              set_prop obj (ToPropertyKey (get_prop asset ''key''))
                (JObj [(''test-header'', JStr ''test-header-value'')]))
       [] assets"

text \<open>Lines 175-202: the header map, the two parts and the response.\<close>

definition manifest_response :: "env \<Rightarrow> jsnum \<Rightarrow> manifest \<Rightarrow> string option \<Rightarrow> response" where
  "manifest_response env protocolVersion m signature =
     (let assetRequestHeaders = assetRequestHeaders_of (mf_assets m @ [mf_launchAsset m]) in
      \<lparr> resp_status = 200,
        resp_headers =
          [(''expo-protocol-version'', Number_toString protocolVersion),
           (''expo-sfv-version'', ''0''),
           (''cache-control'', ''private, max-age=0''),
           (''content-type'', ''multipart/mixed; boundary='' @ getBoundary env)],
        resp_body = Form (getBoundary env)
          [\<lparr> part_name = ''manifest'',
             part_body = JSON_stringify (manifest_json m),
             part_contentType = ''application/json'',
             part_header = payload_header signature \<rparr>,
           \<lparr> part_name = ''extensions'',
             part_body = JSON_stringify
               (JObj [(''assetRequestHeaders'', JObj assetRequestHeaders)]),
             part_contentType = ''application/json'',
             part_header = [] \<rparr>] \<rparr>)"

text \<open>Lines 156-202: the signing block, then the parts and the response.\<close>

definition sign_and_frame_manifest ::
  "env \<Rightarrow> request \<Rightarrow> jsnum \<Rightarrow> manifest \<Rightarrow> response promise" where
  "sign_and_frame_manifest env req protocolVersion m =
     await (signing_block env req (manifest_json m)) (\<lambda>s.
       case s of
         Inl early \<Rightarrow> resolved early
       | Inr signature \<Rightarrow> resolved (manifest_response env protocolVersion m signature))"

definition putUpdateInResponseAsync ::
  "env \<Rightarrow> request \<Rightarrow> string \<Rightarrow> string \<Rightarrow> string \<Rightarrow> jsnum \<Rightarrow> response promise" where
  "putUpdateInResponseAsync env req updateBundlePath runtimeVersion platform protocolVersion =
     (let currentUpdateId = req_headers req ''expo-current-update-id'' in
      await (invoke (Call_getMetadataAsync updateBundlePath runtimeVersion)
               (getMetadataAsync env updateBundlePath runtimeVersion)) (\<lambda>md.
      if currentUpdateId = Some (convertSHA256HashToUUID env (md_id md)) \<and> protocolVersion = Num 1
      then resolved no_update_message_response
      else
        await (assembleManifest env updateBundlePath runtimeVersion platform md)
          (sign_and_frame_manifest env req protocolVersion)))"

subsection \<open>\<^verbatim>\<open>getTypeOfUpdateAsync\<close> (lines 98-101) and \<^verbatim>\<open>GET\<close> (lines 22-91)\<close>

definition getTypeOfUpdateAsync :: "env \<Rightarrow> string \<Rightarrow> UpdateType promise" where
  "getTypeOfUpdateAsync env updateBundlePath =
     await (invoke (Call_readdir updateBundlePath) (readdir env updateBundlePath))
       (\<lambda>directoryContents.
          resolved (if ''rollback'' \<in> set directoryContents then ROLLBACK else NORMAL_UPDATE))"

definition error_response :: "nat \<Rightarrow> string \<Rightarrow> response" where
  "error_response status msg =
     \<lparr> resp_status = status,
       resp_headers = [],
       resp_body = Text (JSON_stringify (JObj [(''error'', JStr msg)])) \<rparr>"

text \<open>\<^verbatim>\<open>a ?? b\<close> takes \<^verbatim>\<open>b\<close> only when \<^verbatim>\<open>a\<close> is \<^verbatim>\<open>null\<close>.\<close>

definition protocolVersion_of :: "request \<Rightarrow> jsnum" where
  "protocolVersion_of req =
     parseInt (case req_headers req ''expo-protocol-version'' of None \<Rightarrow> ''0'' | Some v \<Rightarrow> v)"

definition platform_of :: "request \<Rightarrow> string option" where
  "platform_of req =
     (case req_headers req ''expo-platform'' of
        None \<Rightarrow> req_searchParams req ''platform''
      | Some v \<Rightarrow> Some v)"

definition runtimeVersion_of :: "request \<Rightarrow> string option" where
  "runtimeVersion_of req =
     (case req_headers req ''expo-runtime-version'' of
        None \<Rightarrow> req_searchParams req ''runtime-version''
      | Some v \<Rightarrow> Some v)"

text \<open>
  The message of a caught value at line 84: every thrown value of the model is an
  \<^verbatim>\<open>Error\<close> instance (\<^verbatim>\<open>NoUpdateAvailableError\<close> is handled before), so the alternative
  \<^verbatim>\<open>'An unknown error occurred'\<close> is not reached.
\<close>

definition error_message :: "exn \<Rightarrow> string" where
  "error_message e = (case e of Error msg \<Rightarrow> msg | NoUpdateAvailableError \<Rightarrow> [])"

text \<open>The \<^verbatim>\<open>catch\<close> block of lines 78-90.\<close>

definition catch_block :: "env \<Rightarrow> request \<Rightarrow> jsnum \<Rightarrow> exn \<Rightarrow> response promise" where
  "catch_block env req protocolVersion maybeNoUpdateAvailableError =
     (if maybeNoUpdateAvailableError = NoUpdateAvailableError
      then putNoUpdateAvailableInResponseAsync env req protocolVersion
      else (Inr (error_response 404 (error_message maybeNoUpdateAvailableError)),
            [Console_error maybeNoUpdateAvailableError]))"

definition GET :: "env \<Rightarrow> request \<Rightarrow> response promise" where
  "GET env req =
     (if req_method req \<noteq> ''GET'' then resolved (error_response 405 ''Expected GET.'')
      else
      (let protocolVersionMaybeArray = req_headers req ''expo-protocol-version'' in
       if truthy protocolVersionMaybeArray \<and> Array_isArray protocolVersionMaybeArray
       then resolved (error_response 400 ''Unsupported protocol version. Expected either 0 or 1.'')
       else
       (let protocolVersion = protocolVersion_of req in
        case platform_of req of
          None \<Rightarrow>
            resolved (error_response 400 ''Unsupported platform. Expected either ios or android.'')
        | Some platform \<Rightarrow>
        if platform = [] \<or> (platform \<noteq> ''ios'' \<and> platform \<noteq> ''android'')
        then resolved (error_response 400 ''Unsupported platform. Expected either ios or android.'')
        else
        (case runtimeVersion_of req of
           None \<Rightarrow> resolved (error_response 400 ''No runtimeVersion provided.'')
         | Some runtimeVersion \<Rightarrow>
         if runtimeVersion = []
         then resolved (error_response 400 ''No runtimeVersion provided.'')
         else
           (case getLatestUpdateBundlePathForRuntimeVersionAsync env runtimeVersion of
              Inl msg \<Rightarrow>
                (Inr (error_response 404 msg),
                 [Call_getLatestUpdateBundlePathForRuntimeVersionAsync runtimeVersion,
                  Console_log msg])
            | Inr updateBundlePath \<Rightarrow>
                await (Inr (), [Call_getLatestUpdateBundlePathForRuntimeVersionAsync runtimeVersion])
                  (\<lambda>_.
                await (getTypeOfUpdateAsync env updateBundlePath) (\<lambda>updateType.
                try_catch
                  (if updateType = NORMAL_UPDATE
                   then putUpdateInResponseAsync env req updateBundlePath runtimeVersion
                          platform protocolVersion
                   else putRollBackInResponseAsync env req updateBundlePath protocolVersion)
                  (catch_block env req protocolVersion))))))))"

subsection \<open>Requests that reach the \<^verbatim>\<open>try\<close> block\<close>

text \<open>
  A request resolves to a bundle of some type when it is a GET request that passes the
  checks of lines 23-49, the bundle resolver returns the bundle path for its runtime
  version, and the directory listing classifies the bundle as that type.
\<close>

definition resolves_to ::
  "env \<Rightarrow> request \<Rightarrow> UpdateType \<Rightarrow> string \<Rightarrow> string \<Rightarrow> string \<Rightarrow> bool" where
  "resolves_to env req updateType updateBundlePath runtimeVersion platform =
     (req_method req = ''GET''
      \<and> platform_of req = Some platform \<and> (platform = ''ios'' \<or> platform = ''android'')
      \<and> runtimeVersion_of req = Some runtimeVersion \<and> runtimeVersion \<noteq> []
      \<and> getLatestUpdateBundlePathForRuntimeVersionAsync env runtimeVersion = Inr updateBundlePath
      \<and> getTypeOfUpdateAsync env updateBundlePath = (Inr updateType, [Call_readdir updateBundlePath]))"

subsection \<open>Classification of calls and responses\<close>

text \<open>The calls of the signing block: the key provider and the signature primitive.\<close>

fun signer_call :: "call \<Rightarrow> bool" where
  "signer_call Call_getPrivateKeyAsync = True"
| "signer_call (Call_signRSASHA256 payloadString privateKey) = True"
| "signer_call c = False"

text \<open>
  A response carries a payload with a signature when its body is a form whose first
  part has the payload as body and the payload headers for that signature, and no other
  part has extra headers.
\<close>

definition carries_payload :: "response \<Rightarrow> string \<Rightarrow> string option \<Rightarrow> bool" where
  "carries_payload resp payloadString signature =
     (case resp_body resp of
        Text s \<Rightarrow> False
      | Form boundary parts \<Rightarrow>
          (case parts of
             [] \<Rightarrow> False
           | p # ps \<Rightarrow>
               part_body p = payloadString \<and> part_header p = payload_header signature
               \<and> list_all (\<lambda>q. part_header q = []) ps))"

section \<open>A concrete deployment\<close>

text \<open>
  One bundle for runtime version 1.0.0 with two assets and a launch asset per platform.
  The directory listing and the private key vary between the examples.
\<close>

definition demo_metadata :: metadata where
  "demo_metadata =
     \<lparr> md_id = ''9f86d081884c7d65'',
       md_createdAt = ''2024-01-01T00:00:00.000Z'',
       md_fileMetadata = (\<lambda>p.
         if p = ''ios'' \<or> p = ''android''
         then Some \<lparr> pm_assets = [\<lparr> asset_path = ''assets/a'', asset_ext = ''png'' \<rparr>,
                                  \<lparr> asset_path = ''assets/b'', asset_ext = ''ttf'' \<rparr>],
                      pm_bundle = ''bundles/main.js'' \<rparr>
         else None) \<rparr>"

definition demo_env :: "string list \<Rightarrow> string option \<Rightarrow> env" where
  "demo_env directoryContents privateKey =
     \<lparr> getLatestUpdateBundlePathForRuntimeVersionAsync = (\<lambda>rv.
         if rv = ''1.0.0'' then Inr ''updates/1.0.0/1'' else Inl ''Unsupported runtime version''),
       readdir = (\<lambda>p. Inr directoryContents),
       getMetadataAsync = (\<lambda>p rv. Inr demo_metadata),
       getExpoConfigAsync = (\<lambda>p rv. Inr (JObj [(''name'', JStr ''app'')])),
       getAssetMetadataAsync = (\<lambda>arg. Inr (JObj [(''key'', JStr (arg_filePath arg))])),
       getPrivateKeyAsync = Inr privateKey,
       createRollBackDirectiveAsync = (\<lambda>p. Inr (JObj [(''type'', JStr ''rollback'')])),
       createNoUpdateAvailableDirectiveAsync = JObj [(''type'', JStr ''noUpdateAvailable'')],
       convertSHA256HashToUUID = (\<lambda>h. ''uuid-'' @ h),
       signRSASHA256 = (\<lambda>msg key. ''signed'' @ key),
       convertToDictionaryItemsRepresentation = (\<lambda>d. d),
       serializeDictionary = (\<lambda>d. concat (map (\<lambda>(k, v). k @ ''='' @ v @ '';'') d)),
       getBoundary = ''--boundary'' \<rparr>"

definition demo_request :: "(string \<times> string) list \<Rightarrow> request" where
  "demo_request hs =
     \<lparr> req_method = ''GET'', req_headers = map_of hs, req_searchParams = (\<lambda>k. None) \<rparr>"

text \<open>The manifest of the bundle for ios, and the calls that assemble it.\<close>

definition demo_manifest :: manifest where
  "demo_manifest =
     \<lparr> mf_id = ''uuid-9f86d081884c7d65'',
       mf_createdAt = ''2024-01-01T00:00:00.000Z'',
       mf_runtimeVersion = ''1.0.0'',
       mf_assets = [JObj [(''key'', JStr ''assets/a'')], JObj [(''key'', JStr ''assets/b'')]],
       mf_launchAsset = JObj [(''key'', JStr ''bundles/main.js'')],
       mf_expoClient = JObj [(''name'', JStr ''app'')] \<rparr>"

definition demo_assembly_calls :: "call list" where
  "demo_assembly_calls =
     [Call_getExpoConfigAsync ''updates/1.0.0/1'' ''1.0.0'',
      Call_getAssetMetadataAsync
        \<lparr> arg_updateBundlePath = ''updates/1.0.0/1'', arg_filePath = ''assets/a'',
          arg_ext = Some ''png'', arg_runtimeVersion = ''1.0.0'', arg_platform = ''ios'',
          arg_isLaunchAsset = False \<rparr>,
      Call_getAssetMetadataAsync
        \<lparr> arg_updateBundlePath = ''updates/1.0.0/1'', arg_filePath = ''assets/b'',
          arg_ext = Some ''ttf'', arg_runtimeVersion = ''1.0.0'', arg_platform = ''ios'',
          arg_isLaunchAsset = False \<rparr>,
      Call_getAssetMetadataAsync
        \<lparr> arg_updateBundlePath = ''updates/1.0.0/1'', arg_filePath = ''bundles/main.js'',
          arg_ext = None, arg_runtimeVersion = ''1.0.0'', arg_platform = ''ios'',
          arg_isLaunchAsset = True \<rparr>]"

section \<open>Basic facts about asynchronous computations\<close>

lemma await_Inl [simp]: "await (Inl e, t) f = (Inl e, t)"
  by (simp add: await_def)

lemma await_Inr [simp]: "await (Inr x, t) f = (fst (f x), t @ snd (f x))"
  by (simp add: await_def split: prod.splits)

lemma await_resolved [simp]: "await (resolved x) f = f x"
  by (simp add: resolved_def)

lemma await_rejected [simp]: "await (rejected e) f = rejected e"
  by (simp add: rejected_def)

lemma try_catch_Inl [simp]: "try_catch (Inl e, t) h = (fst (h e), t @ snd (h e))"
  by (simp add: try_catch_def split: prod.splits)

lemma try_catch_Inr [simp]: "try_catch (Inr x, t) h = (Inr x, t)"
  by (simp add: try_catch_def)

lemma invoke_Inl [simp]: "invoke c (Inl msg) = (Inl (Error msg), [c])"
  by (simp add: invoke_def)

lemma invoke_Inr [simp]: "invoke c (Inr x) = (Inr x, [c])"
  by (simp add: invoke_def)

section \<open>Requests that resolve to a bundle\<close>

text \<open>
  For a request that resolves to a bundle, \<^const>\<open>GET\<close> calls the bundle resolver, lists the
  directory and runs the \<^verbatim>\<open>try\<close> block with its \<^verbatim>\<open>catch\<close>.
\<close>

lemma GET_resolved:
  assumes "resolves_to env req updateType updateBundlePath runtimeVersion platform"
  shows "GET env req =
    (fst (try_catch
            (if updateType = NORMAL_UPDATE
             then putUpdateInResponseAsync env req updateBundlePath runtimeVersion platform
                    (protocolVersion_of req)
             else putRollBackInResponseAsync env req updateBundlePath (protocolVersion_of req))
            (catch_block env req (protocolVersion_of req))),
     Call_getLatestUpdateBundlePathForRuntimeVersionAsync runtimeVersion #
     Call_readdir updateBundlePath #
     snd (try_catch
            (if updateType = NORMAL_UPDATE
             then putUpdateInResponseAsync env req updateBundlePath runtimeVersion platform
                    (protocolVersion_of req)
             else putRollBackInResponseAsync env req updateBundlePath (protocolVersion_of req))
            (catch_block env req (protocolVersion_of req))))"
  using assms
  by (auto simp add: GET_def resolves_to_def Array_isArray_def Let_def)

text \<open>Evaluation of the concrete deployment.\<close>

lemmas demo_simps =
  demo_env_def demo_request_def demo_metadata_def resolves_to_def getTypeOfUpdateAsync_def
  platform_of_def runtimeVersion_of_def protocolVersion_of_def truthy_def
  parseInt_def StrWhiteSpaceChar_def digit_value_def digits_value_def resolved_def rejected_def

section \<open>Rollback bundles under protocol version 0\<close>

text \<open>
  Claim C5. A GET request that resolves to a ROLLBACK bundle with protocol version 0 is
  answered with status 404 and the message of the error thrown at line 212, which names
  the unsupported protocol version. The result does not depend on the
  \<^verbatim>\<open>expo-embedded-update-id\<close> header, and after the directory listing nothing is called
  but \<^verbatim>\<open>console.error\<close>: no directive is constructed.
\<close>

theorem rollback_protocol_version_0:
  assumes "resolves_to env req ROLLBACK updateBundlePath runtimeVersion platform"
    and "protocolVersion_of req = Num 0"
  shows "GET env req =
    (Inr (error_response 404 ''Rollbacks not supported on protocol version 0''),
     [Call_getLatestUpdateBundlePathForRuntimeVersionAsync runtimeVersion,
      Call_readdir updateBundlePath,
      Console_error (Error ''Rollbacks not supported on protocol version 0'')])"
  using assms(2)
  by (simp add: GET_resolved [OF assms(1)] putRollBackInResponseAsync_def rejected_def
      catch_block_def error_message_def)

theorem rollback_protocol_version_0_witness:
  "resolves_to (demo_env [''rollback''] None)
     (demo_request [(''expo-protocol-version'', ''0''), (''expo-platform'', ''ios''),
                    (''expo-runtime-version'', ''1.0.0''), (''expo-embedded-update-id'', ''e1'')])
     ROLLBACK ''updates/1.0.0/1'' ''1.0.0'' ''ios''
   \<and> GET (demo_env [''rollback''] None)
     (demo_request [(''expo-protocol-version'', ''0''), (''expo-platform'', ''ios''),
                    (''expo-runtime-version'', ''1.0.0''), (''expo-embedded-update-id'', ''e1'')]) =
    (Inr (error_response 404 ''Rollbacks not supported on protocol version 0''),
     [Call_getLatestUpdateBundlePathForRuntimeVersionAsync ''1.0.0'',
      Call_readdir ''updates/1.0.0/1'',
      Console_error (Error ''Rollbacks not supported on protocol version 0'')])"
proof -
  have r: "resolves_to (demo_env [''rollback''] None)
     (demo_request [(''expo-protocol-version'', ''0''), (''expo-platform'', ''ios''),
                    (''expo-runtime-version'', ''1.0.0''), (''expo-embedded-update-id'', ''e1'')])
     ROLLBACK ''updates/1.0.0/1'' ''1.0.0'' ''ios''"
    by (simp add: demo_simps)
  have p: "protocolVersion_of
     (demo_request [(''expo-protocol-version'', ''0''), (''expo-platform'', ''ios''),
                    (''expo-runtime-version'', ''1.0.0''), (''expo-embedded-update-id'', ''e1'')]) = Num 0"
    by (simp add: demo_simps)
  show ?thesis
    using r rollback_protocol_version_0 [OF r p] by simp
qed

section \<open>The signing block\<close>

lemma signing_block_not_requested:
  assumes "\<not> truthy (req_headers req ''expo-expect-signature'')"
  shows "signing_block env req payload = (Inr (Inr None), [])"
  using assms by (simp add: signing_block_def resolved_def)

lemma signing_block_no_key:
  assumes "truthy (req_headers req ''expo-expect-signature'')"
    and "getPrivateKeyAsync env = Inr privateKey" and "\<not> truthy privateKey"
  shows "signing_block env req payload = (Inr (Inl no_key_response), [Call_getPrivateKeyAsync])"
  using assms by (simp add: signing_block_def resolved_def truthy_def split: option.splits)

lemma signing_block_key:
  assumes "truthy (req_headers req ''expo-expect-signature'')"
    and "getPrivateKeyAsync env = Inr (Some key)" and "key \<noteq> []"
  shows "signing_block env req payload =
    (Inr (Inr (Some (signature_value env (JSON_stringify payload) key))),
     [Call_getPrivateKeyAsync, Call_signRSASHA256 (JSON_stringify payload) key])"
  using assms by (simp add: signing_block_def Let_def)

lemma signing_block_rejects:
  assumes "truthy (req_headers req ''expo-expect-signature'')"
    and "getPrivateKeyAsync env = Inl msg"
  shows "signing_block env req payload = (Inl (Error msg), [Call_getPrivateKeyAsync])"
  using assms by (simp add: signing_block_def)

text \<open>The four outcomes of the block.\<close>

lemma signing_block_cases:
  obtains
    (not_requested) "\<not> truthy (req_headers req ''expo-expect-signature'')"
      "signing_block env req payload = (Inr (Inr None), [])"
  | (rejects) msg where "truthy (req_headers req ''expo-expect-signature'')"
      "getPrivateKeyAsync env = Inl msg"
      "signing_block env req payload = (Inl (Error msg), [Call_getPrivateKeyAsync])"
  | (no_key) privateKey where "truthy (req_headers req ''expo-expect-signature'')"
      "getPrivateKeyAsync env = Inr privateKey" "\<not> truthy privateKey"
      "signing_block env req payload = (Inr (Inl no_key_response), [Call_getPrivateKeyAsync])"
  | (signed) key where "truthy (req_headers req ''expo-expect-signature'')"
      "getPrivateKeyAsync env = Inr (Some key)" "key \<noteq> []"
      "signing_block env req payload =
         (Inr (Inr (Some (signature_value env (JSON_stringify payload) key))),
          [Call_getPrivateKeyAsync, Call_signRSASHA256 (JSON_stringify payload) key])"
proof (cases "truthy (req_headers req ''expo-expect-signature'')")
  case False
  then show ?thesis using not_requested signing_block_not_requested by blast
next
  case True
  show ?thesis
  proof (cases "getPrivateKeyAsync env")
    case (Inl msg)
    then show ?thesis using rejects True signing_block_rejects by blast
  next
    case (Inr privateKey)
    show ?thesis
    proof (cases "truthy privateKey")
      case False
      then show ?thesis using no_key True Inr signing_block_no_key by blast
    next
      case t: True
      then obtain key where k: "privateKey = Some key" "key \<noteq> []"
        by (auto simp add: truthy_def split: option.splits)
      show ?thesis using signed [of key] True Inr k signing_block_key by blast
    qed
  qed
qed

lemma signing_block_available:
  assumes "truthy (req_headers req ''expo-expect-signature'') \<longrightarrow>
             getPrivateKeyAsync env = Inr (Some key) \<and> key \<noteq> []"
  shows "signing_block env req payload =
    (Inr (Inr (if truthy (req_headers req ''expo-expect-signature'')
               then Some (signature_value env (JSON_stringify payload) key) else None)),
     (if truthy (req_headers req ''expo-expect-signature'')
      then [Call_getPrivateKeyAsync, Call_signRSASHA256 (JSON_stringify payload) key] else []))"
  using assms signing_block_key signing_block_not_requested by auto

section \<open>Manifest assembly\<close>

lemma collect_invoke_rejects:
  "collect (map (\<lambda>a. fst (invoke (c a) (g a))) xs) = Inl e \<Longrightarrow> \<exists>msg. e = Error msg"
proof (induction xs)
  case Nil
  then show ?case by simp
next
  case (Cons a xs)
  then show ?case by (cases "g a") (auto split: sum.splits)
qed

lemma assembleManifest_rejects:
  assumes "assembleManifest env updateBundlePath runtimeVersion platform md = (Inl e, t)"
  shows "\<exists>msg. e = Error msg"
proof (cases "getExpoConfigAsync env updateBundlePath runtimeVersion")
  case (Inl msg)
  then show ?thesis using assms by (auto simp add: assembleManifest_def)
next
  case cfg: (Inr expoConfig)
  show ?thesis
  proof (cases "md_fileMetadata md platform")
    case None
    then show ?thesis using assms cfg by (auto simp add: assembleManifest_def rejected_def)
  next
    case (Some pm)
    show ?thesis
    proof (cases "collect (map (\<lambda>a. fst (invoke
        (Call_getAssetMetadataAsync (asset_request updateBundlePath runtimeVersion platform a))
        (getAssetMetadataAsync env (asset_request updateBundlePath runtimeVersion platform a))))
        (pm_assets pm))")
      case (Inl e')
      then have "e' = e"
        using assms cfg Some by (simp add: assembleManifest_def Promise_all_def comp_def)
      then show ?thesis using collect_invoke_rejects [OF Inl] by simp
    next
      case (Inr assets)
      then show ?thesis
        using assms cfg Some
        by (cases "getAssetMetadataAsync env
               (launch_request updateBundlePath runtimeVersion platform pm)")
           (auto simp add: assembleManifest_def Promise_all_def comp_def resolved_def)
    qed
  qed
qed

lemma assembleManifest_calls:
  "\<exists>t. snd (assembleManifest env updateBundlePath runtimeVersion platform md) =
       Call_getExpoConfigAsync updateBundlePath runtimeVersion # t"
  by (cases "getExpoConfigAsync env updateBundlePath runtimeVersion")
     (simp_all add: assembleManifest_def)

section \<open>Signing and framing\<close>

lemma sign_and_frame_manifest_cases:
  obtains
    (not_requested) "\<not> truthy (req_headers req ''expo-expect-signature'')"
      "sign_and_frame_manifest env req protocolVersion m =
         (Inr (manifest_response env protocolVersion m None), [])"
  | (rejects) msg where "truthy (req_headers req ''expo-expect-signature'')"
      "getPrivateKeyAsync env = Inl msg"
      "sign_and_frame_manifest env req protocolVersion m =
         (Inl (Error msg), [Call_getPrivateKeyAsync])"
  | (no_key) privateKey where "truthy (req_headers req ''expo-expect-signature'')"
      "getPrivateKeyAsync env = Inr privateKey" "\<not> truthy privateKey"
      "sign_and_frame_manifest env req protocolVersion m =
         (Inr no_key_response, [Call_getPrivateKeyAsync])"
  | (signed) key where "truthy (req_headers req ''expo-expect-signature'')"
      "getPrivateKeyAsync env = Inr (Some key)" "key \<noteq> []"
      "sign_and_frame_manifest env req protocolVersion m =
         (Inr (manifest_response env protocolVersion m
                 (Some (signature_value env (JSON_stringify (manifest_json m)) key))),
          [Call_getPrivateKeyAsync, Call_signRSASHA256 (JSON_stringify (manifest_json m)) key])"
proof (cases rule: signing_block_cases [of req env "manifest_json m"])
  case not_requested
  then show ?thesis
    using that(1) by (simp add: sign_and_frame_manifest_def resolved_def)
next
  case (rejects msg)
  then show ?thesis
    using that(2) by (simp add: sign_and_frame_manifest_def)
next
  case (no_key privateKey)
  then show ?thesis
    using that(3) by (simp add: sign_and_frame_manifest_def resolved_def)
next
  case (signed key)
  then show ?thesis
    using that(4) by (simp add: sign_and_frame_manifest_def resolved_def)
qed

lemma sign_and_frame_directive_cases:
  obtains
    (not_requested) "\<not> truthy (req_headers req ''expo-expect-signature'')"
      "sign_and_frame_directive env req directive =
         (Inr (directive_response env directive None), [])"
  | (rejects) msg where "truthy (req_headers req ''expo-expect-signature'')"
      "getPrivateKeyAsync env = Inl msg"
      "sign_and_frame_directive env req directive =
         (Inl (Error msg), [Call_getPrivateKeyAsync])"
  | (no_key) privateKey where "truthy (req_headers req ''expo-expect-signature'')"
      "getPrivateKeyAsync env = Inr privateKey" "\<not> truthy privateKey"
      "sign_and_frame_directive env req directive =
         (Inr no_key_response, [Call_getPrivateKeyAsync])"
  | (signed) key where "truthy (req_headers req ''expo-expect-signature'')"
      "getPrivateKeyAsync env = Inr (Some key)" "key \<noteq> []"
      "sign_and_frame_directive env req directive =
         (Inr (directive_response env directive
                 (Some (signature_value env (JSON_stringify directive) key))),
          [Call_getPrivateKeyAsync, Call_signRSASHA256 (JSON_stringify directive) key])"
proof (cases rule: signing_block_cases [of req env directive])
  case not_requested
  then show ?thesis
    using that(1) by (simp add: sign_and_frame_directive_def resolved_def)
next
  case (rejects msg)
  then show ?thesis
    using that(2) by (simp add: sign_and_frame_directive_def)
next
  case (no_key privateKey)
  then show ?thesis
    using that(3) by (simp add: sign_and_frame_directive_def resolved_def)
next
  case (signed key)
  then show ?thesis
    using that(4) by (simp add: sign_and_frame_directive_def resolved_def)
qed

lemma sign_and_frame_manifest_available:
  assumes "truthy (req_headers req ''expo-expect-signature'') \<longrightarrow>
             getPrivateKeyAsync env = Inr (Some key) \<and> key \<noteq> []"
  shows "sign_and_frame_manifest env req protocolVersion m =
    (Inr (manifest_response env protocolVersion m
       (if truthy (req_headers req ''expo-expect-signature'')
        then Some (signature_value env (JSON_stringify (manifest_json m)) key) else None)),
     (if truthy (req_headers req ''expo-expect-signature'')
      then [Call_getPrivateKeyAsync, Call_signRSASHA256 (JSON_stringify (manifest_json m)) key]
      else []))"
  by (simp add: sign_and_frame_manifest_def signing_block_available [OF assms] resolved_def)

lemma sign_and_frame_directive_available:
  assumes "truthy (req_headers req ''expo-expect-signature'') \<longrightarrow>
             getPrivateKeyAsync env = Inr (Some key) \<and> key \<noteq> []"
  shows "sign_and_frame_directive env req directive =
    (Inr (directive_response env directive
       (if truthy (req_headers req ''expo-expect-signature'')
        then Some (signature_value env (JSON_stringify directive) key) else None)),
     (if truthy (req_headers req ''expo-expect-signature'')
      then [Call_getPrivateKeyAsync, Call_signRSASHA256 (JSON_stringify directive) key]
      else []))"
  by (simp add: sign_and_frame_directive_def signing_block_available [OF assms] resolved_def)

text \<open>Responses are told apart by their status and the kind of their body.\<close>

lemma response_facts [simp]:
  "resp_status no_update_message_response = 200"
  "resp_status no_key_response = 400"
  "resp_status (error_response status msg) = status"
  "resp_status (manifest_response env protocolVersion m signature) = 200"
  "resp_status (directive_response env directive signature) = 200"
  "resp_body no_update_message_response =
     Text (JSON_stringify (JObj [(''message'', JStr ''No update available'')]))"
  "resp_body (error_response status msg) = Text (JSON_stringify (JObj [(''error'', JStr msg)]))"
  "resp_body no_key_response = Text (JSON_stringify (JObj
     [(''error'', JStr ''Code signing requested but no key supplied when starting server.'')]))"
  "resp_headers no_update_message_response = []"
  by (simp_all add: no_update_message_response_def no_key_response_def error_response_def
      manifest_response_def directive_response_def Let_def)

lemma manifest_response_body:
  "resp_body (manifest_response env protocolVersion m signature) =
     Form (getBoundary env)
       [\<lparr> part_name = ''manifest'',
          part_body = JSON_stringify (manifest_json m),
          part_contentType = ''application/json'',
          part_header = payload_header signature \<rparr>,
        \<lparr> part_name = ''extensions'',
          part_body = JSON_stringify (JObj [(''assetRequestHeaders'',
            JObj (assetRequestHeaders_of (mf_assets m @ [mf_launchAsset m])))]),
          part_contentType = ''application/json'',
          part_header = [] \<rparr>]"
  by (simp add: manifest_response_def Let_def)

lemma directive_response_body:
  "resp_body (directive_response env directive signature) =
     Form (getBoundary env)
       [\<lparr> part_name = ''directive'',
          part_body = JSON_stringify directive,
          part_contentType = ''application/json'',
          part_header = payload_header signature \<rparr>]"
  by (simp add: directive_response_def)

lemma no_update_message_response_neq [simp]:
  "no_update_message_response \<noteq> no_key_response"
  "no_update_message_response \<noteq> error_response 404 msg"
  "no_update_message_response \<noteq> manifest_response env protocolVersion m signature"
  "no_update_message_response \<noteq> directive_response env directive signature"
proof -
  show "no_update_message_response \<noteq> no_key_response"
  proof
    assume "no_update_message_response = no_key_response"
    then have "resp_status no_update_message_response = resp_status no_key_response"
      by (rule arg_cong)
    then show False by simp
  qed
  show "no_update_message_response \<noteq> error_response 404 msg"
  proof
    assume "no_update_message_response = error_response 404 msg"
    then have "resp_status no_update_message_response = resp_status (error_response 404 msg)"
      by (rule arg_cong)
    then show False by simp
  qed
  show "no_update_message_response \<noteq> manifest_response env protocolVersion m signature"
  proof
    assume "no_update_message_response = manifest_response env protocolVersion m signature"
    then have "resp_body no_update_message_response =
        resp_body (manifest_response env protocolVersion m signature)"
      by (rule arg_cong)
    then show False by (simp add: manifest_response_body)
  qed
  show "no_update_message_response \<noteq> directive_response env directive signature"
  proof
    assume "no_update_message_response = directive_response env directive signature"
    then have "resp_body no_update_message_response =
        resp_body (directive_response env directive signature)"
      by (rule arg_cong)
    then show False by (simp add: directive_response_body)
  qed
qed

section \<open>The manifest path\<close>

lemmas neq_no_update_message_response [simp] = no_update_message_response_neq [THEN not_sym]

lemma putUpdate_shortcut:
  assumes "getMetadataAsync env updateBundlePath runtimeVersion = Inr md"
    and "req_headers req ''expo-current-update-id'' = Some (convertSHA256HashToUUID env (md_id md))"
    and "protocolVersion = Num 1"
  shows "putUpdateInResponseAsync env req updateBundlePath runtimeVersion platform protocolVersion =
    (Inr no_update_message_response, [Call_getMetadataAsync updateBundlePath runtimeVersion])"
  using assms by (simp add: putUpdateInResponseAsync_def resolved_def)

lemma putUpdate_full:
  assumes "getMetadataAsync env updateBundlePath runtimeVersion = Inr md"
    and "\<not> (req_headers req ''expo-current-update-id'' = Some (convertSHA256HashToUUID env (md_id md))
            \<and> protocolVersion = Num 1)"
  shows "putUpdateInResponseAsync env req updateBundlePath runtimeVersion platform protocolVersion =
    (fst (await (assembleManifest env updateBundlePath runtimeVersion platform md)
            (sign_and_frame_manifest env req protocolVersion)),
     Call_getMetadataAsync updateBundlePath runtimeVersion #
     snd (await (assembleManifest env updateBundlePath runtimeVersion platform md)
            (sign_and_frame_manifest env req protocolVersion)))"
  using assms by (auto simp add: putUpdateInResponseAsync_def)

text \<open>
  The outcomes of assembling, signing and framing: an \<^verbatim>\<open>Error\<close>, the response for the
  missing key, or the manifest response. The app config is requested in every case.
\<close>

lemma full_manifest_cases:
  obtains
    (rejects) msg t where
      "await (assembleManifest env updateBundlePath runtimeVersion platform md)
         (sign_and_frame_manifest env req protocolVersion) =
       (Inl (Error msg), Call_getExpoConfigAsync updateBundlePath runtimeVersion # t)"
  | (no_key) t where
      "await (assembleManifest env updateBundlePath runtimeVersion platform md)
         (sign_and_frame_manifest env req protocolVersion) =
       (Inr no_key_response, Call_getExpoConfigAsync updateBundlePath runtimeVersion # t)"
  | (served) m signature t where
      "await (assembleManifest env updateBundlePath runtimeVersion platform md)
         (sign_and_frame_manifest env req protocolVersion) =
       (Inr (manifest_response env protocolVersion m signature),
        Call_getExpoConfigAsync updateBundlePath runtimeVersion # t)"
proof -
  obtain r ta where a: "assembleManifest env updateBundlePath runtimeVersion platform md = (r, ta)"
    by (cases "assembleManifest env updateBundlePath runtimeVersion platform md")
  obtain ta' where t: "ta = Call_getExpoConfigAsync updateBundlePath runtimeVersion # ta'"
    using assembleManifest_calls [of env updateBundlePath runtimeVersion platform md] a by auto
  show ?thesis
  proof (cases r)
    case (Inl e)
    then obtain msg where "e = Error msg"
      using assembleManifest_rejects a by blast
    then show ?thesis using rejects a t Inl by simp
  next
    case (Inr m)
    show ?thesis
    proof (cases rule: sign_and_frame_manifest_cases [of req env protocolVersion m])
      case not_requested
      then show ?thesis using served a t Inr by simp
    next
      case (rejects msg)
      then show ?thesis using that(1) a t Inr by simp
    next
      case (no_key privateKey)
      then show ?thesis using that(2) a t Inr by simp
    next
      case (signed key)
      then show ?thesis using served a t Inr by simp
    qed
  qed
qed

lemma no_update_message_body:
  "JSON_stringify (JObj [(''message'', JStr ''No update available'')]) =
     ''{'' @ [CHR 0x22] @ ''message'' @ [CHR 0x22] @ '':'' @
     [CHR 0x22] @ ''No update available'' @ [CHR 0x22] @ ''}''"
  by (simp add: QuoteJSONString_def quote_char_def)


section \<open>Facts about the concrete deployment\<close>

lemma demo_getMetadata:
  "getMetadataAsync (demo_env directoryContents privateKey) p rv = Inr demo_metadata"
  by (simp add: demo_env_def)

lemma demo_uuid:
  "convertSHA256HashToUUID (demo_env directoryContents privateKey) (md_id demo_metadata) =
     ''uuid-9f86d081884c7d65''"
  by (simp add: demo_env_def demo_metadata_def)

lemma demo_getPrivateKey:
  "getPrivateKeyAsync (demo_env directoryContents privateKey) = Inr privateKey"
  by (simp add: demo_env_def)

lemma demo_assemble:
  "assembleManifest (demo_env directoryContents privateKey) ''updates/1.0.0/1'' ''1.0.0'' ''ios''
     demo_metadata = (Inr demo_manifest, demo_assembly_calls)"
  by (simp add: assembleManifest_def demo_env_def demo_metadata_def demo_manifest_def
      demo_assembly_calls_def Promise_all_def asset_request_def launch_request_def resolved_def)

lemma demo_resolves_normal:
  assumes "map_of hs ''expo-platform'' = Some ''ios''"
    and "map_of hs ''expo-runtime-version'' = Some ''1.0.0''"
  shows "resolves_to (demo_env [''metadata.json''] privateKey) (demo_request hs)
     NORMAL_UPDATE ''updates/1.0.0/1'' ''1.0.0'' ''ios''"
  using assms by (simp add: demo_simps)

lemma demo_resolves_rollback:
  assumes "map_of hs ''expo-platform'' = Some ''ios''"
    and "map_of hs ''expo-runtime-version'' = Some ''1.0.0''"
  shows "resolves_to (demo_env [''rollback''] privateKey) (demo_request hs)
     ROLLBACK ''updates/1.0.0/1'' ''1.0.0'' ''ios''"
  using assms by (simp add: demo_simps)

lemma demo_header [simp]: "req_headers (demo_request hs) = map_of hs"
  by (simp add: demo_request_def)



section \<open>The rollback path\<close>

text \<open>
  Claim C3, as amended. A GET request that resolves to a ROLLBACK bundle under a protocol
  version other than 0 and carries no \<^verbatim>\<open>expo-embedded-update-id\<close> header (or an empty one)
  fails with the error thrown at line 217; the \<^verbatim>\<open>catch\<close> block answers with status 404
  (not 400) and that message. After the directory listing nothing is called but
  \<^verbatim>\<open>console.error\<close>: no directive is constructed.
\<close>

theorem rollback_missing_embedded_update_id:
  assumes "resolves_to env req ROLLBACK updateBundlePath runtimeVersion platform"
    and "protocolVersion_of req \<noteq> Num 0"
    and "\<not> truthy (req_headers req ''expo-embedded-update-id'')"
  shows "GET env req =
    (Inr (error_response 404 ''Invalid Expo-Embedded-Update-ID request header specified.''),
     [Call_getLatestUpdateBundlePathForRuntimeVersionAsync runtimeVersion,
      Call_readdir updateBundlePath,
      Console_error (Error ''Invalid Expo-Embedded-Update-ID request header specified.'')])"
  using assms(2,3)
  by (simp add: GET_resolved [OF assms(1)] putRollBackInResponseAsync_def rejected_def
      catch_block_def error_message_def)

theorem rollback_missing_embedded_update_id_witness:
  "resolves_to (demo_env [''rollback''] None)
     (demo_request [(''expo-protocol-version'', ''1''), (''expo-platform'', ''android''),
        (''expo-runtime-version'', ''1.0.0'')])
     ROLLBACK ''updates/1.0.0/1'' ''1.0.0'' ''android''
   \<and> GET (demo_env [''rollback''] None)
     (demo_request [(''expo-protocol-version'', ''1''), (''expo-platform'', ''android''),
        (''expo-runtime-version'', ''1.0.0'')]) =
    (Inr (error_response 404 ''Invalid Expo-Embedded-Update-ID request header specified.''),
     [Call_getLatestUpdateBundlePathForRuntimeVersionAsync ''1.0.0'',
      Call_readdir ''updates/1.0.0/1'',
      Console_error (Error ''Invalid Expo-Embedded-Update-ID request header specified.'')])"
proof -
  let ?req = "demo_request [(''expo-protocol-version'', ''1''), (''expo-platform'', ''android''),
        (''expo-runtime-version'', ''1.0.0'')]"
  have r: "resolves_to (demo_env [''rollback''] None) ?req
      ROLLBACK ''updates/1.0.0/1'' ''1.0.0'' ''android''"
    by (simp add: demo_simps)
  have pv: "protocolVersion_of ?req \<noteq> Num 0"
    by (simp add: demo_simps)
  have e: "\<not> truthy (req_headers ?req ''expo-embedded-update-id'')"
    by (simp add: truthy_def)
  show ?thesis
    using r rollback_missing_embedded_update_id [OF r pv e] by simp
qed

text \<open>
  Counterexample to claim C3 as stated: the status of the response is 404, not 400.
\<close>

theorem rollback_missing_embedded_update_id_is_404:
  "resolves_to (demo_env [''rollback''] None)
     (demo_request [(''expo-protocol-version'', ''1''), (''expo-platform'', ''ios''),
        (''expo-runtime-version'', ''1.0.0'')])
     ROLLBACK ''updates/1.0.0/1'' ''1.0.0'' ''ios''
   \<and> protocolVersion_of
     (demo_request [(''expo-protocol-version'', ''1''), (''expo-platform'', ''ios''),
        (''expo-runtime-version'', ''1.0.0'')]) = Num 1
   \<and> req_headers
     (demo_request [(''expo-protocol-version'', ''1''), (''expo-platform'', ''ios''),
        (''expo-runtime-version'', ''1.0.0'')]) ''expo-embedded-update-id'' = None
   \<and> fst (GET (demo_env [''rollback''] None)
     (demo_request [(''expo-protocol-version'', ''1''), (''expo-platform'', ''ios''),
        (''expo-runtime-version'', ''1.0.0'')])) =
      Inr (error_response 404 ''Invalid Expo-Embedded-Update-ID request header specified.'')
   \<and> resp_status
        (error_response 404 ''Invalid Expo-Embedded-Update-ID request header specified.'') \<noteq> 400"
proof -
  let ?req = "demo_request [(''expo-protocol-version'', ''1''), (''expo-platform'', ''ios''),
        (''expo-runtime-version'', ''1.0.0'')]"
  have r: "resolves_to (demo_env [''rollback''] None) ?req
      ROLLBACK ''updates/1.0.0/1'' ''1.0.0'' ''ios''"
    by (rule demo_resolves_rollback) simp_all
  have pv: "protocolVersion_of ?req = Num 1"
    by (simp add: demo_simps)
  have "fst (GET (demo_env [''rollback''] None) ?req) =
      Inr (error_response 404 ''Invalid Expo-Embedded-Update-ID request header specified.'')"
    by (simp add: GET_resolved [OF r] pv putRollBackInResponseAsync_def rejected_def
        catch_block_def error_message_def truthy_def)
  then show ?thesis using r pv by simp
qed

text \<open>
  When the current update is the embedded one, the rollback function raises the no-update
  condition and the \<^verbatim>\<open>catch\<close> block builds the directive.
\<close>

lemma GET_rollback_no_update:
  assumes "resolves_to env req ROLLBACK updateBundlePath runtimeVersion platform"
    and "protocolVersion_of req \<noteq> Num 0"
    and "req_headers req ''expo-embedded-update-id'' = Some embeddedUpdateId"
    and "embeddedUpdateId \<noteq> []"
    and "req_headers req ''expo-current-update-id'' = Some embeddedUpdateId"
  shows "GET env req =
    (fst (sign_and_frame_directive env req (createNoUpdateAvailableDirectiveAsync env)),
     Call_getLatestUpdateBundlePathForRuntimeVersionAsync runtimeVersion #
     Call_readdir updateBundlePath #
     Call_createNoUpdateAvailableDirectiveAsync #
     snd (sign_and_frame_directive env req (createNoUpdateAvailableDirectiveAsync env)))"
  using assms(2-5)
  by (simp add: GET_resolved [OF assms(1)] putRollBackInResponseAsync_def rejected_def
      catch_block_def putNoUpdateAvailableInResponseAsync_def truthy_def)

text \<open>
  Claim C4, as amended. A GET request that resolves to a ROLLBACK bundle with a protocol
  version other than 0, a non-empty \<^verbatim>\<open>expo-embedded-update-id\<close> and an equal
  \<^verbatim>\<open>expo-current-update-id\<close> is answered, provided a non-empty private key is supplied
  whenever a signature is expected, with status 200, the protocol version header \<^verbatim>\<open>1\<close>, a
  \<^verbatim>\<open>multipart/mixed\<close> content type and a form with the single part \<^verbatim>\<open>directive\<close> holding
  the serialized NoUpdateAvailable directive; the part carries the \<^verbatim>\<open>expo-signature\<close>
  header exactly when a signature is expected (and its serialization is not empty). No
  rollback directive is constructed.
\<close>

theorem rollback_no_update_directive:
  assumes "resolves_to env req ROLLBACK updateBundlePath runtimeVersion platform"
    and "protocolVersion_of req \<noteq> Num 0"
    and "req_headers req ''expo-embedded-update-id'' = Some embeddedUpdateId"
    and "embeddedUpdateId \<noteq> []"
    and "req_headers req ''expo-current-update-id'' = Some embeddedUpdateId"
    and "truthy (req_headers req ''expo-expect-signature'') \<longrightarrow>
           getPrivateKeyAsync env = Inr (Some key) \<and> key \<noteq> []"
  shows "GET env req =
    (Inr \<lparr> resp_status = 200,
           resp_headers =
             [(''expo-protocol-version'', ''1''),
              (''expo-sfv-version'', ''0''),
              (''cache-control'', ''private, max-age=0''),
              (''content-type'', ''multipart/mixed; boundary='' @ getBoundary env)],
           resp_body = Form (getBoundary env)
             [\<lparr> part_name = ''directive'',
                part_body = JSON_stringify (createNoUpdateAvailableDirectiveAsync env),
                part_contentType = ''application/json'',
                part_header =
                  (''content-type'', ''application/json; charset=utf-8'') #
                  (if truthy (req_headers req ''expo-expect-signature'') \<and>
                      signature_value env
                        (JSON_stringify (createNoUpdateAvailableDirectiveAsync env)) key \<noteq> []
                   then [(''expo-signature'',
                          signature_value env
                            (JSON_stringify (createNoUpdateAvailableDirectiveAsync env)) key)]
                   else []) \<rparr>] \<rparr>,
     [Call_getLatestUpdateBundlePathForRuntimeVersionAsync runtimeVersion,
      Call_readdir updateBundlePath,
      Call_createNoUpdateAvailableDirectiveAsync] @
     (if truthy (req_headers req ''expo-expect-signature'')
      then [Call_getPrivateKeyAsync,
            Call_signRSASHA256 (JSON_stringify (createNoUpdateAvailableDirectiveAsync env)) key]
      else []))"
  by (simp add: GET_rollback_no_update [OF assms(1-5)]
      sign_and_frame_directive_available [OF assms(6)] directive_response_def payload_header_def)

lemma demo_directives:
  "createNoUpdateAvailableDirectiveAsync (demo_env directoryContents privateKey) =
     JObj [(''type'', JStr ''noUpdateAvailable'')]"
  "createRollBackDirectiveAsync (demo_env directoryContents privateKey) p =
     Inr (JObj [(''type'', JStr ''rollback'')])"
  "getBoundary (demo_env directoryContents privateKey) = ''--boundary''"
  "signature_value (demo_env directoryContents privateKey) payloadString key =
     ''sig=signed'' @ key @ '';keyid=main;''"
  by (simp_all add: demo_env_def signature_value_def)

theorem rollback_no_update_directive_witness:
  "GET (demo_env [''rollback''] (Some ''PEM''))
     (demo_request [(''expo-protocol-version'', ''1''), (''expo-platform'', ''ios''),
        (''expo-runtime-version'', ''1.0.0''), (''expo-embedded-update-id'', ''e1''),
        (''expo-current-update-id'', ''e1''), (''expo-expect-signature'', ''true'')]) =
    (Inr \<lparr> resp_status = 200,
           resp_headers =
             [(''expo-protocol-version'', ''1''),
              (''expo-sfv-version'', ''0''),
              (''cache-control'', ''private, max-age=0''),
              (''content-type'', ''multipart/mixed; boundary=--boundary'')],
           resp_body = Form ''--boundary''
             [\<lparr> part_name = ''directive'',
                part_body = JSON_stringify (JObj [(''type'', JStr ''noUpdateAvailable'')]),
                part_contentType = ''application/json'',
                part_header =
                  [(''content-type'', ''application/json; charset=utf-8''),
                   (''expo-signature'', ''sig=signedPEM;keyid=main;'')] \<rparr>] \<rparr>,
     [Call_getLatestUpdateBundlePathForRuntimeVersionAsync ''1.0.0'',
      Call_readdir ''updates/1.0.0/1'',
      Call_createNoUpdateAvailableDirectiveAsync,
      Call_getPrivateKeyAsync,
      Call_signRSASHA256 (JSON_stringify (JObj [(''type'', JStr ''noUpdateAvailable'')])) ''PEM''])"
proof -
  let ?env = "demo_env [''rollback''] (Some ''PEM'')"
  let ?req = "demo_request [(''expo-protocol-version'', ''1''), (''expo-platform'', ''ios''),
        (''expo-runtime-version'', ''1.0.0''), (''expo-embedded-update-id'', ''e1''),
        (''expo-current-update-id'', ''e1''), (''expo-expect-signature'', ''true'')]"
  have r: "resolves_to ?env ?req ROLLBACK ''updates/1.0.0/1'' ''1.0.0'' ''ios''"
    by (rule demo_resolves_rollback) simp_all
  have pv: "protocolVersion_of ?req \<noteq> Num 0"
    by (simp add: demo_simps)
  have e: "req_headers ?req ''expo-embedded-update-id'' = Some ''e1''" "''e1'' \<noteq> []"
    by simp_all
  have c: "req_headers ?req ''expo-current-update-id'' = Some ''e1''"
    by simp
  have k: "truthy (req_headers ?req ''expo-expect-signature'') \<longrightarrow>
      getPrivateKeyAsync ?env = Inr (Some ''PEM'') \<and> ''PEM'' \<noteq> []"
    by (simp add: demo_getPrivateKey)
  have t: "truthy (req_headers ?req ''expo-expect-signature'')"
    by (simp add: truthy_def)
  show ?thesis
    using rollback_no_update_directive [OF r pv e c k] t
    by (simp add: demo_directives)
qed

text \<open>
  Counterexample to claim C4 as stated: with the signature expected and no private key
  configured, the no-update condition ends in the status 400 error response.
\<close>

theorem rollback_no_update_without_key:
  "resolves_to (demo_env [''rollback''] None)
     (demo_request [(''expo-protocol-version'', ''1''), (''expo-platform'', ''ios''),
        (''expo-runtime-version'', ''1.0.0''), (''expo-embedded-update-id'', ''e1''),
        (''expo-current-update-id'', ''e1''), (''expo-expect-signature'', ''true'')])
     ROLLBACK ''updates/1.0.0/1'' ''1.0.0'' ''ios''
   \<and> protocolVersion_of
     (demo_request [(''expo-protocol-version'', ''1''), (''expo-platform'', ''ios''),
        (''expo-runtime-version'', ''1.0.0''), (''expo-embedded-update-id'', ''e1''),
        (''expo-current-update-id'', ''e1''), (''expo-expect-signature'', ''true'')]) = Num 1
   \<and> GET (demo_env [''rollback''] None)
     (demo_request [(''expo-protocol-version'', ''1''), (''expo-platform'', ''ios''),
        (''expo-runtime-version'', ''1.0.0''), (''expo-embedded-update-id'', ''e1''),
        (''expo-current-update-id'', ''e1''), (''expo-expect-signature'', ''true'')]) =
     (Inr no_key_response,
      [Call_getLatestUpdateBundlePathForRuntimeVersionAsync ''1.0.0'',
       Call_readdir ''updates/1.0.0/1'',
       Call_createNoUpdateAvailableDirectiveAsync,
       Call_getPrivateKeyAsync])
   \<and> resp_status no_key_response = 400
   \<and> (\<forall>boundary parts. resp_body no_key_response \<noteq> Form boundary parts)"
proof -
  let ?env = "demo_env [''rollback''] None"
  let ?req = "demo_request [(''expo-protocol-version'', ''1''), (''expo-platform'', ''ios''),
        (''expo-runtime-version'', ''1.0.0''), (''expo-embedded-update-id'', ''e1''),
        (''expo-current-update-id'', ''e1''), (''expo-expect-signature'', ''true'')]"
  have r: "resolves_to ?env ?req ROLLBACK ''updates/1.0.0/1'' ''1.0.0'' ''ios''"
    by (rule demo_resolves_rollback) simp_all
  have pv: "protocolVersion_of ?req = Num 1"
    by (simp add: demo_simps)
  have s: "sign_and_frame_directive ?env ?req (createNoUpdateAvailableDirectiveAsync ?env) =
      (Inr no_key_response, [Call_getPrivateKeyAsync])"
    by (simp add: sign_and_frame_directive_def resolved_def
        signing_block_no_key [of ?req ?env None] truthy_def demo_getPrivateKey)
  have "GET ?env ?req =
     (Inr no_key_response,
      [Call_getLatestUpdateBundlePathForRuntimeVersionAsync ''1.0.0'',
       Call_readdir ''updates/1.0.0/1'',
       Call_createNoUpdateAvailableDirectiveAsync,
       Call_getPrivateKeyAsync])"
    by (simp add: GET_rollback_no_update [OF r, of "''e1''"] pv s)
  then show ?thesis using r pv by simp
qed

section \<open>All outcomes of the handler\<close>

lemma snd_invoke [simp]: "snd (invoke c r) = [c]"
  by (cases r) simp_all

lemma list_all_snd_await:
  assumes "list_all P (snd m)" and "\<And>x. list_all P (snd (f x))"
  shows "list_all P (snd (await m f))"
proof (cases m)
  case (Pair r t)
  then show ?thesis using assms by (cases r) simp_all
qed

lemma assembleManifest_no_signer_calls:
  "list_all (\<lambda>c. \<not> signer_call c \<and> c \<noteq> Call_createNoUpdateAvailableDirectiveAsync)
     (snd (assembleManifest env updateBundlePath runtimeVersion platform md))"
proof -
  have all: "list_all (\<lambda>c. \<not> signer_call c \<and> c \<noteq> Call_createNoUpdateAvailableDirectiveAsync)
      (map (\<lambda>a. Call_getAssetMetadataAsync (f a)) xs)" for f
    and xs :: "asset_ref list"
    by (induction xs) simp_all
  show ?thesis
    unfolding assembleManifest_def
    by (auto intro!: list_all_snd_await
        simp add: rejected_def resolved_def Promise_all_def comp_def all split: option.splits)
qed

text \<open>A request is answered before the bundle is classified, or it resolves to a bundle.\<close>

lemma GET_cases:
  obtains
    (not_get) "GET env req = (Inr (error_response 405 ''Expected GET.''), [])"
  | (bad_platform) "req_method req = ''GET''"
      "\<not> truthy (platform_of req) \<or>
       (platform_of req \<noteq> Some ''ios'' \<and> platform_of req \<noteq> Some ''android'')"
      "GET env req =
         (Inr (error_response 400 ''Unsupported platform. Expected either ios or android.''), [])"
  | (no_runtime_version) "req_method req = ''GET''" "\<not> truthy (runtimeVersion_of req)"
      "GET env req = (Inr (error_response 400 ''No runtimeVersion provided.''), [])"
  | (not_found) runtimeVersion msg where
      "GET env req =
         (Inr (error_response 404 msg),
          [Call_getLatestUpdateBundlePathForRuntimeVersionAsync runtimeVersion, Console_log msg])"
  | (unreadable) runtimeVersion updateBundlePath msg where
      "GET env req =
         (Inl (Error msg),
          [Call_getLatestUpdateBundlePathForRuntimeVersionAsync runtimeVersion,
           Call_readdir updateBundlePath])"
  | (resolved) updateType updateBundlePath runtimeVersion platform where
      "resolves_to env req updateType updateBundlePath runtimeVersion platform"
proof (cases "req_method req = ''GET''")
  case False
  then show ?thesis using not_get by (simp add: GET_def resolved_def)
next
  case get: True
  show ?thesis
  proof (cases "\<not> truthy (platform_of req) \<or>
       (platform_of req \<noteq> Some ''ios'' \<and> platform_of req \<noteq> Some ''android'')")
    case True
    then show ?thesis
      using bad_platform get
      by (auto simp add: GET_def resolved_def Array_isArray_def truthy_def split: option.splits)
  next
    case pf: False
    then obtain platform where p: "platform_of req = Some platform"
      "platform = ''ios'' \<or> platform = ''android''"
      by (auto simp add: truthy_def split: option.splits)
    show ?thesis
    proof (cases "truthy (runtimeVersion_of req)")
      case False
      then show ?thesis
        using no_runtime_version get p
        by (auto simp add: GET_def resolved_def Array_isArray_def truthy_def split: option.splits)
    next
      case True
      then obtain runtimeVersion where rv: "runtimeVersion_of req = Some runtimeVersion"
        "runtimeVersion \<noteq> []"
        by (auto simp add: truthy_def split: option.splits)
      show ?thesis
      proof (cases "getLatestUpdateBundlePathForRuntimeVersionAsync env runtimeVersion")
        case (Inl msg)
        then show ?thesis
          using not_found [of msg runtimeVersion] get p rv
          by (auto simp add: GET_def Array_isArray_def)
      next
        case path: (Inr updateBundlePath)
        show ?thesis
        proof (cases "readdir env updateBundlePath")
          case (Inl msg)
          then show ?thesis
            using unreadable [of msg runtimeVersion updateBundlePath] get p rv path
            by (auto simp add: GET_def Array_isArray_def getTypeOfUpdateAsync_def)
        next
          case (Inr directoryContents)
          then have "resolves_to env req
              (if ''rollback'' \<in> set directoryContents then ROLLBACK else NORMAL_UPDATE)
              updateBundlePath runtimeVersion platform"
            using get p rv path
            by (simp add: resolves_to_def getTypeOfUpdateAsync_def resolved_def)
          then show ?thesis using resolved by blast
        qed
      qed
    qed
  qed
qed

lemma carries_payload_responses [simp]:
  "carries_payload (manifest_response env protocolVersion m signature)
     (JSON_stringify (manifest_json m)) signature"
  "carries_payload (directive_response env directive signature)
     (JSON_stringify directive) signature"
  by (simp_all add: carries_payload_def manifest_response_body directive_response_body)

lemma error_response_neq [simp]:
  assumes "status \<noteq> 200"
  shows "error_response status msg \<noteq> no_update_message_response"
    and "no_update_message_response \<noteq> error_response status msg"
proof -
  show "error_response status msg \<noteq> no_update_message_response"
  proof
    assume "error_response status msg = no_update_message_response"
    then have "resp_status (error_response status msg) = resp_status no_update_message_response"
      by (rule arg_cong)
    then show False using assms by simp
  qed
  then show "no_update_message_response \<noteq> error_response status msg"
    by (rule not_sym)
qed

lemma GET_rollback_protocol_0:
  assumes "resolves_to env req ROLLBACK updateBundlePath runtimeVersion platform"
    and "protocolVersion_of req = Num 0"
  shows "GET env req =
    (Inr (error_response 404 ''Rollbacks not supported on protocol version 0''),
     [Call_getLatestUpdateBundlePathForRuntimeVersionAsync runtimeVersion,
      Call_readdir updateBundlePath,
      Console_error (Error ''Rollbacks not supported on protocol version 0'')])"
  using assms(2)
  by (simp add: GET_resolved [OF assms(1)] putRollBackInResponseAsync_def rejected_def
      catch_block_def error_message_def)

lemma GET_rollback_no_embedded_id:
  assumes "resolves_to env req ROLLBACK updateBundlePath runtimeVersion platform"
    and "protocolVersion_of req \<noteq> Num 0"
    and "\<not> truthy (req_headers req ''expo-embedded-update-id'')"
  shows "GET env req =
    (Inr (error_response 404 ''Invalid Expo-Embedded-Update-ID request header specified.''),
     [Call_getLatestUpdateBundlePathForRuntimeVersionAsync runtimeVersion,
      Call_readdir updateBundlePath,
      Console_error (Error ''Invalid Expo-Embedded-Update-ID request header specified.'')])"
  using assms(2,3)
  by (simp add: GET_resolved [OF assms(1)] putRollBackInResponseAsync_def rejected_def
      catch_block_def error_message_def)

text \<open>
  Every run of the handler ends in one of five ways: without reaching the signing block
  and without a form; with an unsigned form when no signature is expected; with the key
  provider rejecting; with the status 400 response when no key is supplied; or with a
  signed form, right after the signature was computed.
\<close>

lemma GET_outcomes:
  obtains
    (plain) r tr where
      "GET env req = (r, tr)"
      "list_all (\<lambda>c. \<not> signer_call c) tr"
      "Call_createNoUpdateAvailableDirectiveAsync \<notin> set tr"
      "\<forall>resp. r = Inr resp \<longrightarrow> (\<exists>s. resp_body resp = Text s)"
      "r = Inr no_update_message_response \<longrightarrow> req_headers req ''expo-current-update-id'' \<noteq> None"
  | (unsigned) resp tr payloadString where
      "GET env req = (Inr resp, tr)"
      "list_all (\<lambda>c. \<not> signer_call c) tr"
      "Call_createNoUpdateAvailableDirectiveAsync \<in> set tr \<longrightarrow>
         req_headers req ''expo-current-update-id'' \<noteq> None"
      "\<not> truthy (req_headers req ''expo-expect-signature'')"
      "carries_payload resp payloadString None"
  | (key_rejects) r tr ts msg where
      "GET env req = (r, tr @ Call_getPrivateKeyAsync # ts)"
      "list_all (\<lambda>c. \<not> signer_call c) tr" "list_all (\<lambda>c. \<not> signer_call c) ts"
      "Call_createNoUpdateAvailableDirectiveAsync \<in> set (tr @ ts) \<longrightarrow>
         req_headers req ''expo-current-update-id'' \<noteq> None"
      "truthy (req_headers req ''expo-expect-signature'')"
      "getPrivateKeyAsync env = Inl msg"
      "\<forall>resp. r = Inr resp \<longrightarrow> (\<exists>s. resp_body resp = Text s)"
      "r \<noteq> Inr no_update_message_response"
  | (no_key) tr privateKey where
      "GET env req = (Inr no_key_response, tr @ [Call_getPrivateKeyAsync])"
      "list_all (\<lambda>c. \<not> signer_call c) tr"
      "Call_createNoUpdateAvailableDirectiveAsync \<in> set tr \<longrightarrow>
         req_headers req ''expo-current-update-id'' \<noteq> None"
      "truthy (req_headers req ''expo-expect-signature'')"
      "getPrivateKeyAsync env = Inr privateKey" "\<not> truthy privateKey"
  | (signed) resp tr payloadString key where
      "GET env req =
         (Inr resp, tr @ [Call_getPrivateKeyAsync, Call_signRSASHA256 payloadString key])"
      "list_all (\<lambda>c. \<not> signer_call c) tr"
      "Call_createNoUpdateAvailableDirectiveAsync \<in> set tr \<longrightarrow>
         req_headers req ''expo-current-update-id'' \<noteq> None"
      "truthy (req_headers req ''expo-expect-signature'')"
      "getPrivateKeyAsync env = Inr (Some key)" "key \<noteq> []"
      "carries_payload resp payloadString (Some (signature_value env payloadString key))"
proof (cases rule: GET_cases [of env req])
  case not_get
  then show ?thesis using plain by simp
next
  case bad_platform
  then show ?thesis using plain by simp
next
  case no_runtime_version
  then show ?thesis using plain by simp
next
  case (not_found runtimeVersion msg)
  then show ?thesis using plain by simp
next
  case (unreadable runtimeVersion updateBundlePath msg)
  then show ?thesis using plain by simp
next
  case (resolved updateType updateBundlePath runtimeVersion platform)
  note G = GET_resolved [OF resolved]
  let ?pv = "protocolVersion_of req"
  show ?thesis
  proof (cases updateType)
    case NORMAL_UPDATE
    show ?thesis
    proof (cases "getMetadataAsync env updateBundlePath runtimeVersion")
      case (Inl msg)
      then have "GET env req =
          (Inr (error_response 404 msg),
           [Call_getLatestUpdateBundlePathForRuntimeVersionAsync runtimeVersion,
            Call_readdir updateBundlePath,
            Call_getMetadataAsync updateBundlePath runtimeVersion,
            Console_error (Error msg)])"
        by (simp add: G NORMAL_UPDATE putUpdateInResponseAsync_def catch_block_def
            error_message_def)
      then show ?thesis using plain by simp
    next
      case md: (Inr md)
      show ?thesis
      proof (cases "req_headers req ''expo-current-update-id'' =
            Some (convertSHA256HashToUUID env (md_id md)) \<and> ?pv = Num 1")
        case True
        then have "GET env req =
            (Inr no_update_message_response,
             [Call_getLatestUpdateBundlePathForRuntimeVersionAsync runtimeVersion,
              Call_readdir updateBundlePath,
              Call_getMetadataAsync updateBundlePath runtimeVersion])"
          by (simp add: G NORMAL_UPDATE putUpdate_shortcut [OF md])
        then show ?thesis using plain True by simp
      next
        case False
        note F = putUpdate_full [OF md False]
        obtain a ta where A: "assembleManifest env updateBundlePath runtimeVersion platform md = (a, ta)"
          by (cases "assembleManifest env updateBundlePath runtimeVersion platform md")
        have q: "list_all (\<lambda>c. \<not> signer_call c \<and> c \<noteq> Call_createNoUpdateAvailableDirectiveAsync) ta"
          using assembleManifest_no_signer_calls [of env updateBundlePath runtimeVersion platform md] A
          by simp
        then have q1: "list_all (\<lambda>c. \<not> signer_call c) ta"
          and q2: "Call_createNoUpdateAvailableDirectiveAsync \<notin> set ta"
          by (auto simp add: list_all_iff)
        show ?thesis
        proof (cases a)
          case (Inl e)
          then obtain msg where "e = Error msg"
            using assembleManifest_rejects A by blast
          then have "GET env req =
              (Inr (error_response 404 msg),
               Call_getLatestUpdateBundlePathForRuntimeVersionAsync runtimeVersion #
               Call_readdir updateBundlePath #
               Call_getMetadataAsync updateBundlePath runtimeVersion # ta @
               [Console_error (Error msg)])"
            using Inl
            by (simp add: G NORMAL_UPDATE F A catch_block_def error_message_def)
          then show ?thesis using plain q1 q2 by simp
        next
          case (Inr m)
          let ?tr = "Call_getLatestUpdateBundlePathForRuntimeVersionAsync runtimeVersion #
               Call_readdir updateBundlePath #
               Call_getMetadataAsync updateBundlePath runtimeVersion # ta"
          have tr: "list_all (\<lambda>c. \<not> signer_call c) ?tr"
            "Call_createNoUpdateAvailableDirectiveAsync \<notin> set ?tr"
            using q1 q2 by simp_all
          show ?thesis
          proof (cases rule: sign_and_frame_manifest_cases [of req env ?pv m])
            case not_requested
            then have "GET env req = (Inr (manifest_response env ?pv m None), ?tr)"
              by (simp add: G NORMAL_UPDATE F A Inr)
            then show ?thesis using unsigned tr not_requested(1) carries_payload_responses(1)
              by blast
          next
            case (rejects msg)
            then have "GET env req =
                (Inr (error_response 404 msg),
                 ?tr @ Call_getPrivateKeyAsync # [Console_error (Error msg)])"
              by (simp add: G NORMAL_UPDATE F A Inr catch_block_def error_message_def)
            then show ?thesis
              using key_rejects [of "Inr (error_response 404 msg)" ?tr "[Console_error (Error msg)]" msg]
                tr rejects(1,2)
              by simp
          next
            case (no_key privateKey)
            then have "GET env req = (Inr no_key_response, ?tr @ [Call_getPrivateKeyAsync])"
              by (simp add: G NORMAL_UPDATE F A Inr)
            then show ?thesis
              using that(4) [of ?tr privateKey] tr no_key(1-3) by simp
          next
            case (signed key)
            then have "GET env req =
                (Inr (manifest_response env ?pv m
                   (Some (signature_value env (JSON_stringify (manifest_json m)) key))),
                 ?tr @ [Call_getPrivateKeyAsync,
                        Call_signRSASHA256 (JSON_stringify (manifest_json m)) key])"
              by (simp add: G NORMAL_UPDATE F A Inr)
            then show ?thesis
              using that(5) tr signed(1-3) carries_payload_responses(1) by blast
          qed
        qed
      qed
    qed
  next
    case ROLLBACK
    note R = resolved [unfolded ROLLBACK]
    show ?thesis
    proof (cases "?pv = Num 0")
      case True
      then show ?thesis
        using plain GET_rollback_protocol_0 [OF R] by simp
    next
      case pv: False
      show ?thesis
      proof (cases "truthy (req_headers req ''expo-embedded-update-id'')")
        case False
        then show ?thesis
          using plain GET_rollback_no_embedded_id [OF R pv] by simp
      next
        case True
        then obtain embeddedUpdateId where
          e: "req_headers req ''expo-embedded-update-id'' = Some embeddedUpdateId"
            "embeddedUpdateId \<noteq> []"
          by (auto simp add: truthy_def split: option.splits)
        show ?thesis
        proof (cases "req_headers req ''expo-current-update-id'' = Some embeddedUpdateId")
          case cur: True
          note N = GET_rollback_no_update [OF R pv e cur]
          let ?d = "createNoUpdateAvailableDirectiveAsync env"
          let ?tr = "[Call_getLatestUpdateBundlePathForRuntimeVersionAsync runtimeVersion,
               Call_readdir updateBundlePath, Call_createNoUpdateAvailableDirectiveAsync]"
          have tr: "list_all (\<lambda>c. \<not> signer_call c) ?tr"
            "Call_createNoUpdateAvailableDirectiveAsync \<in> set ?tr \<longrightarrow>
               req_headers req ''expo-current-update-id'' \<noteq> None"
            using cur by simp_all
          show ?thesis
          proof (cases rule: sign_and_frame_directive_cases [of req env ?d])
            case not_requested
            then have "GET env req = (Inr (directive_response env ?d None), ?tr)"
              by (simp add: N)
            then show ?thesis using unsigned tr not_requested(1) carries_payload_responses(2)
              by blast
          next
            case (rejects msg)
            then have "GET env req = (Inl (Error msg), ?tr @ Call_getPrivateKeyAsync # [])"
              by (simp add: N)
            then show ?thesis
              using key_rejects [of "Inl (Error msg)" ?tr "[]" msg] cur rejects(1,2) by simp
          next
            case (no_key privateKey)
            then have "GET env req = (Inr no_key_response, ?tr @ [Call_getPrivateKeyAsync])"
              by (simp add: N)
            then show ?thesis
              using that(4) [of ?tr privateKey] tr no_key(1-3) by simp
          next
            case (signed key)
            then have "GET env req =
                (Inr (directive_response env ?d
                   (Some (signature_value env (JSON_stringify ?d) key))),
                 ?tr @ [Call_getPrivateKeyAsync, Call_signRSASHA256 (JSON_stringify ?d) key])"
              by (simp add: N)
            then show ?thesis
              using that(5) tr signed(1-3) carries_payload_responses(2) by blast
          qed
        next
          case cur: False
          have P: "putRollBackInResponseAsync env req updateBundlePath ?pv =
              await (invoke (Call_createRollBackDirectiveAsync updateBundlePath)
                       (createRollBackDirectiveAsync env updateBundlePath))
                (sign_and_frame_directive env req)"
            using pv e cur by (simp add: putRollBackInResponseAsync_def truthy_def)
          show ?thesis
          proof (cases "createRollBackDirectiveAsync env updateBundlePath")
            case (Inl msg)
            then have "GET env req =
                (Inr (error_response 404 msg),
                 [Call_getLatestUpdateBundlePathForRuntimeVersionAsync runtimeVersion,
                  Call_readdir updateBundlePath,
                  Call_createRollBackDirectiveAsync updateBundlePath,
                  Console_error (Error msg)])"
              by (simp add: G ROLLBACK P catch_block_def error_message_def)
            then show ?thesis using plain by simp
          next
            case (Inr d)
            let ?tr = "[Call_getLatestUpdateBundlePathForRuntimeVersionAsync runtimeVersion,
                 Call_readdir updateBundlePath,
                 Call_createRollBackDirectiveAsync updateBundlePath]"
            have tr: "list_all (\<lambda>c. \<not> signer_call c) ?tr"
              "Call_createNoUpdateAvailableDirectiveAsync \<notin> set ?tr"
              by simp_all
            show ?thesis
            proof (cases rule: sign_and_frame_directive_cases [of req env d])
              case not_requested
              then have "GET env req = (Inr (directive_response env d None), ?tr)"
                by (simp add: G ROLLBACK P Inr)
              then show ?thesis using unsigned tr not_requested(1) carries_payload_responses(2)
                by blast
            next
              case (rejects msg)
              then have "GET env req =
                  (Inr (error_response 404 msg),
                   ?tr @ Call_getPrivateKeyAsync # [Console_error (Error msg)])"
                by (simp add: G ROLLBACK P Inr catch_block_def error_message_def)
              then show ?thesis
                using key_rejects [of "Inr (error_response 404 msg)" ?tr
                    "[Console_error (Error msg)]" msg] rejects(1,2)
                by simp
            next
              case (no_key privateKey)
              then have "GET env req = (Inr no_key_response, ?tr @ [Call_getPrivateKeyAsync])"
                by (simp add: G ROLLBACK P Inr)
              then show ?thesis
                using that(4) [of ?tr privateKey] tr no_key(1-3) by simp
            next
              case (signed key)
              then have "GET env req =
                  (Inr (directive_response env d
                     (Some (signature_value env (JSON_stringify d) key))),
                   ?tr @ [Call_getPrivateKeyAsync, Call_signRSASHA256 (JSON_stringify d) key])"
                by (simp add: G ROLLBACK P Inr)
              then show ?thesis
                using that(5) tr signed(1-3) carries_payload_responses(2) by blast
            qed
          qed
        qed
      qed
    qed
  qed
qed

section \<open>Signatures\<close>

lemma payload_header_signature:
  "(''expo-signature'', sg) \<in> set (payload_header signature) \<longleftrightarrow> signature = Some sg \<and> sg \<noteq> []"
  by (auto simp add: payload_header_def split: option.splits)

lemma carries_payload_Form:
  assumes "carries_payload resp payloadString signature"
  obtains boundary p ps where "resp_body resp = Form boundary (p # ps)"
    "part_body p = payloadString" "part_header p = payload_header signature"
    "\<forall>q \<in> set ps. part_header q = []"
  using assms
  by (auto simp add: carries_payload_def list_all_iff split: body.splits list.splits)



text \<open>Two runs of the concrete deployment on a rollback bundle, current update embedded.\<close>

lemma demo_GET_no_update_signed:
  "GET (demo_env [''rollback''] (Some ''PEM''))
     (demo_request [(''expo-protocol-version'', ''1''), (''expo-platform'', ''ios''),
        (''expo-runtime-version'', ''1.0.0''), (''expo-embedded-update-id'', ''e1''),
        (''expo-current-update-id'', ''e1''), (''expo-expect-signature'', ''true'')]) =
    (Inr (directive_response (demo_env [''rollback''] (Some ''PEM''))
            (JObj [(''type'', JStr ''noUpdateAvailable'')])
            (Some (signature_value (demo_env [''rollback''] (Some ''PEM''))
               (JSON_stringify (JObj [(''type'', JStr ''noUpdateAvailable'')])) ''PEM''))),
     [Call_getLatestUpdateBundlePathForRuntimeVersionAsync ''1.0.0'',
      Call_readdir ''updates/1.0.0/1'',
      Call_createNoUpdateAvailableDirectiveAsync,
      Call_getPrivateKeyAsync,
      Call_signRSASHA256 (JSON_stringify (JObj [(''type'', JStr ''noUpdateAvailable'')])) ''PEM''])"
proof -
  let ?env = "demo_env [''rollback''] (Some ''PEM'')"
  let ?req = "demo_request [(''expo-protocol-version'', ''1''), (''expo-platform'', ''ios''),
        (''expo-runtime-version'', ''1.0.0''), (''expo-embedded-update-id'', ''e1''),
        (''expo-current-update-id'', ''e1''), (''expo-expect-signature'', ''true'')]"
  have r: "resolves_to ?env ?req ROLLBACK ''updates/1.0.0/1'' ''1.0.0'' ''ios''"
    by (rule demo_resolves_rollback) simp_all
  have pv: "protocolVersion_of ?req \<noteq> Num 0"
    by (simp add: demo_simps)
  have k: "truthy (req_headers ?req ''expo-expect-signature'') \<longrightarrow>
      getPrivateKeyAsync ?env = Inr (Some ''PEM'') \<and> ''PEM'' \<noteq> []"
    by (simp add: demo_getPrivateKey)
  have t: "truthy (req_headers ?req ''expo-expect-signature'')"
    by (simp add: truthy_def)
  show ?thesis
    using t
    by (simp add: GET_rollback_no_update [OF r pv, of "''e1''"]
        sign_and_frame_directive_available [OF k] demo_directives(1))
qed

lemma demo_GET_no_update_no_key:
  "GET (demo_env [''rollback''] None)
     (demo_request [(''expo-protocol-version'', ''1''), (''expo-platform'', ''ios''),
        (''expo-runtime-version'', ''1.0.0''), (''expo-embedded-update-id'', ''e1''),
        (''expo-current-update-id'', ''e1''), (''expo-expect-signature'', ''true'')]) =
     (Inr no_key_response,
      [Call_getLatestUpdateBundlePathForRuntimeVersionAsync ''1.0.0'',
       Call_readdir ''updates/1.0.0/1'',
       Call_createNoUpdateAvailableDirectiveAsync,
       Call_getPrivateKeyAsync])"
proof -
  let ?env = "demo_env [''rollback''] None"
  let ?req = "demo_request [(''expo-protocol-version'', ''1''), (''expo-platform'', ''ios''),
        (''expo-runtime-version'', ''1.0.0''), (''expo-embedded-update-id'', ''e1''),
        (''expo-current-update-id'', ''e1''), (''expo-expect-signature'', ''true'')]"
  have r: "resolves_to ?env ?req ROLLBACK ''updates/1.0.0/1'' ''1.0.0'' ''ios''"
    by (rule demo_resolves_rollback) simp_all
  have pv: "protocolVersion_of ?req \<noteq> Num 0"
    by (simp add: demo_simps)
  have s: "sign_and_frame_directive ?env ?req (createNoUpdateAvailableDirectiveAsync ?env) =
      (Inr no_key_response, [Call_getPrivateKeyAsync])"
    by (simp add: sign_and_frame_directive_def resolved_def
        signing_block_no_key [of ?req ?env None] truthy_def demo_getPrivateKey)
  show ?thesis
    by (simp add: GET_rollback_no_update [OF r pv, of "''e1''"] s)
qed

text \<open>Two runs on a normal bundle: the shortcut, and the manifest without signature.\<close>

lemma demo_GET_shortcut:
  assumes "map_of hs ''expo-platform'' = Some ''ios''"
    and "map_of hs ''expo-runtime-version'' = Some ''1.0.0''"
    and "map_of hs ''expo-protocol-version'' = Some ''1''"
    and "map_of hs ''expo-current-update-id'' = Some ''uuid-9f86d081884c7d65''"
  shows "GET (demo_env [''metadata.json''] privateKey) (demo_request hs) =
     (Inr no_update_message_response,
      [Call_getLatestUpdateBundlePathForRuntimeVersionAsync ''1.0.0'',
       Call_readdir ''updates/1.0.0/1'',
       Call_getMetadataAsync ''updates/1.0.0/1'' ''1.0.0''])"
proof -
  have pv: "protocolVersion_of (demo_request hs) = Num 1"
    using assms(3) by (simp add: demo_simps)
  show ?thesis
    using assms(4)
    by (simp add: GET_resolved [OF demo_resolves_normal [OF assms(1,2)]] pv
        putUpdate_shortcut [OF demo_getMetadata] demo_uuid)
qed

lemma demo_GET_manifest:
  assumes "map_of hs ''expo-platform'' = Some ''ios''"
    and "map_of hs ''expo-runtime-version'' = Some ''1.0.0''"
    and "map_of hs ''expo-current-update-id'' = None"
    and "map_of hs ''expo-expect-signature'' = None"
  shows "GET (demo_env [''metadata.json''] privateKey) (demo_request hs) =
     (Inr (manifest_response (demo_env [''metadata.json''] privateKey)
             (protocolVersion_of (demo_request hs)) demo_manifest None),
      [Call_getLatestUpdateBundlePathForRuntimeVersionAsync ''1.0.0'',
       Call_readdir ''updates/1.0.0/1'',
       Call_getMetadataAsync ''updates/1.0.0/1'' ''1.0.0''] @ demo_assembly_calls)"
proof -
  have s: "sign_and_frame_manifest (demo_env [''metadata.json''] privateKey) (demo_request hs)
      pv demo_manifest =
      (Inr (manifest_response (demo_env [''metadata.json''] privateKey) pv demo_manifest None), [])"
    for pv
    using assms(4)
    by (simp add: sign_and_frame_manifest_def signing_block_not_requested truthy_def resolved_def)
  show ?thesis
    using assms(3)
    by (simp add: GET_resolved [OF demo_resolves_normal [OF assms(1,2)]]
        putUpdate_full [OF demo_getMetadata] demo_assemble s)
qed




section \<open>Requests without a current update identifier\<close>

lemma putRollBack_directive:
  assumes "protocolVersion \<noteq> Num 0"
    and "truthy (req_headers req ''expo-embedded-update-id'')"
    and "req_headers req ''expo-current-update-id'' \<noteq> req_headers req ''expo-embedded-update-id''"
  shows "putRollBackInResponseAsync env req updateBundlePath protocolVersion =
    await (invoke (Call_createRollBackDirectiveAsync updateBundlePath)
             (createRollBackDirectiveAsync env updateBundlePath))
      (sign_and_frame_directive env req)"
  using assms by (simp add: putRollBackInResponseAsync_def)

lemma carries_payload_neq:
  assumes "carries_payload resp payloadString signature"
  shows "resp \<noteq> no_update_message_response"
proof
  assume "resp = no_update_message_response"
  then have "resp_body resp = resp_body no_update_message_response" by (rule arg_cong)
  then show False using assms by (simp add: carries_payload_def)
qed




section \<open>The header map of the extensions part\<close>

lemma insert_index_keys:
  "fst ` set (insert_index k v ms) = insert k (fst ` set ms)"
proof (induction ms)
  case Nil
  then show ?case by simp
next
  case (Cons a ms)
  obtain k' v' where a: "a = (k', v')" by (cases a)
  show ?case
  proof (cases "is_array_index k' \<and> digits_value k' < digits_value k")
    case True
    then show ?thesis by (simp add: a Cons.IH insert_commute)
  next
    case False
    show ?thesis by (simp add: a False)
  qed
qed

lemma insert_index_distinct:
  "k \<notin> fst ` set ms \<Longrightarrow> distinct (map fst ms) \<Longrightarrow>
     distinct (map fst (insert_index k v ms))"
proof (induction ms)
  case Nil
  then show ?case by simp
next
  case (Cons a ms)
  obtain k' v' where a: "a = (k', v')" by (cases a)
  have d: "distinct (map fst (insert_index k v ms))" "k' \<noteq> k" "k' \<notin> fst ` set ms"
    "k \<notin> fst ` set ms" "distinct (map fst ms)"
    using Cons a by auto
  show ?case
  proof (cases "is_array_index k' \<and> digits_value k' < digits_value k")
    case True
    then show ?thesis using d by (simp add: a insert_index_keys)
  next
    case False
    show ?thesis using d by (simp add: a False)
  qed
qed

lemma update_in_place_keys:
  "map fst (map (\<lambda>(k', v'). if k' = k then (k', v) else (k', v')) ms) = map fst ms"
  by (induction ms) auto

lemma set_prop_cases:
  obtains
    (update) "k \<in> fst ` set ms" "map fst (set_prop ms k v) = map fst ms"
  | (index) "k \<notin> fst ` set ms" "set_prop ms k v = insert_index k v ms"
  | (append) "k \<notin> fst ` set ms" "set_prop ms k v = ms @ [(k, v)]"
proof (cases "k \<in> fst ` set ms")
  case True
  then have "set_prop ms k v = map (\<lambda>(k', v'). if k' = k then (k', v) else (k', v')) ms"
    by (simp add: set_prop_def)
  then have "map fst (set_prop ms k v) = map fst ms"
    by (simp only: update_in_place_keys)
  then show ?thesis using update True by blast
next
  case False
  then show ?thesis
    using index append by (cases "is_array_index k") (simp_all add: set_prop_def)
qed

lemma set_prop_keys: "fst ` set (set_prop ms k v) = insert k (fst ` set ms)"
proof (cases rule: set_prop_cases [of k ms v])
  case update
  from update(2) have "set (map fst (set_prop ms k v)) = set (map fst ms)"
    by (rule arg_cong)
  then show ?thesis using update(1) by auto
next
  case index
  then show ?thesis by (simp add: insert_index_keys)
next
  case append
  then show ?thesis by simp
qed

lemma set_prop_distinct:
  assumes "distinct (map fst ms)"
  shows "distinct (map fst (set_prop ms k v))"
proof (cases rule: set_prop_cases [of k ms v])
  case update
  then show ?thesis using assms by (simp only:)
next
  case index
  then show ?thesis using assms by (simp add: insert_index_distinct)
next
  case append
  then show ?thesis using assms by simp
qed

lemma assetRequestHeaders_fold_keys:
  "fst ` set (foldl (\<lambda>obj asset. set_prop obj (ToPropertyKey (get_prop asset ''key'')) v)
       acc assets) =
     fst ` set acc \<union> (\<lambda>asset. ToPropertyKey (get_prop asset ''key'')) ` set assets"
proof (induction assets arbitrary: acc)
  case Nil
  then show ?case by simp
next
  case (Cons a assets)
  show ?case
    unfolding foldl_Cons Cons.IH set_prop_keys by auto
qed

lemma assetRequestHeaders_fold_distinct:
  "distinct (map fst acc) \<Longrightarrow>
     distinct (map fst (foldl (\<lambda>obj asset. set_prop obj (ToPropertyKey (get_prop asset ''key'')) v)
       acc assets))"
proof (induction assets arbitrary: acc)
  case Nil
  then show ?case by simp
next
  case (Cons a assets)
  show ?case
    unfolding foldl_Cons by (rule Cons.IH) (rule set_prop_distinct [OF Cons.prems])
qed

lemma assetRequestHeaders_keys:
  "fst ` set (assetRequestHeaders_of assets) =
     (\<lambda>asset. ToPropertyKey (get_prop asset ''key'')) ` set assets"
  unfolding assetRequestHeaders_of_def assetRequestHeaders_fold_keys by simp

lemma assetRequestHeaders_distinct:
  "distinct (map fst (assetRequestHeaders_of assets))"
  unfolding assetRequestHeaders_of_def by (rule assetRequestHeaders_fold_distinct) simp

lemma assetRequestHeaders_length:
  "length (assetRequestHeaders_of assets) =
     card ((\<lambda>asset. ToPropertyKey (get_prop asset ''key'')) ` set assets)"
proof -
  have "card (set (map fst (assetRequestHeaders_of assets))) =
      length (map fst (assetRequestHeaders_of assets))"
    by (rule distinct_card) (rule assetRequestHeaders_distinct)
  then show ?thesis by (simp add: assetRequestHeaders_keys)
qed

lemma Number_toString_1: "Number_toString (Num 1) = ''1''"
  by (simp add: Number_toString_def show_int_def show_nat.simps digit_char_def)


lemma demo_asset_lookups:
  "md_fileMetadata demo_metadata ''ios'' =
     Some \<lparr> pm_assets = [\<lparr> asset_path = ''assets/a'', asset_ext = ''png'' \<rparr>,
                          \<lparr> asset_path = ''assets/b'', asset_ext = ''ttf'' \<rparr>],
            pm_bundle = ''bundles/main.js'' \<rparr>"
  "getExpoConfigAsync (demo_env directoryContents privateKey) p rv = Inr (JObj [(''name'', JStr ''app'')])"
  "getAssetMetadataAsync (demo_env directoryContents privateKey) arg =
     Inr (JObj [(''key'', JStr (arg_filePath arg))])"
  by (simp_all add: demo_metadata_def demo_env_def)

lemma demo_createdAt: "md_createdAt demo_metadata = ''2024-01-01T00:00:00.000Z''"
  by (simp add: demo_metadata_def)

lemma demo_header_map:
  "assetRequestHeaders_of
     [JObj [(''key'', JStr ''assets/a'')], JObj [(''key'', JStr ''assets/b'')],
      JObj [(''key'', JStr ''bundles/main.js'')]] =
   [(''assets/a'', JObj [(''test-header'', JStr ''test-header-value'')]),
    (''assets/b'', JObj [(''test-header'', JStr ''test-header-value'')]),
    (''bundles/main.js'', JObj [(''test-header'', JStr ''test-header-value'')])]"
  by (simp add: assetRequestHeaders_of_def set_prop_def is_array_index_def digit_value_def
      ToPropertyKey_def get_prop_def)



section \<open>The served identifier and the shortcut\<close>

lemma await_resolves:
  assumes "fst (await m f) = Inr y"
  obtains x where "fst m = Inr x" "fst (f x) = Inr y"
proof (cases m)
  case (Pair r t)
  then show ?thesis using assms that by (cases r) simp_all
qed

lemma assembleManifest_id:
  assumes "assembleManifest env updateBundlePath runtimeVersion platform md = (Inr m, ta)"
  shows "mf_id m = convertSHA256HashToUUID env (md_id md)"
proof -
  from assms have "fst (assembleManifest env updateBundlePath runtimeVersion platform md) = Inr m"
    by simp
  then obtain expoConfig where
    1: "fst (case md_fileMetadata md platform of
       None \<Rightarrow> rejected (Error undefined_assets_message)
     | Some platformSpecificMetadata \<Rightarrow>
         await (Promise_all (map (\<lambda>asset.
                  invoke (Call_getAssetMetadataAsync
                            (asset_request updateBundlePath runtimeVersion platform asset))
                    (getAssetMetadataAsync env
                       (asset_request updateBundlePath runtimeVersion platform asset)))
                  (pm_assets platformSpecificMetadata))) (\<lambda>assets.
         await (invoke (Call_getAssetMetadataAsync
                          (launch_request updateBundlePath runtimeVersion platform
                             platformSpecificMetadata))
                  (getAssetMetadataAsync env
                     (launch_request updateBundlePath runtimeVersion platform
                        platformSpecificMetadata))) (\<lambda>launchAsset.
         resolved
           \<lparr> mf_id = convertSHA256HashToUUID env (md_id md),
             mf_createdAt = md_createdAt md,
             mf_runtimeVersion = runtimeVersion,
             mf_assets = assets,
             mf_launchAsset = launchAsset,
             mf_expoClient = expoConfig \<rparr>))) = Inr m"
    unfolding assembleManifest_def by (rule await_resolves)
  then obtain pm where pm: "md_fileMetadata md platform = Some pm"
    by (cases "md_fileMetadata md platform") (simp_all add: rejected_def)
  from 1 obtain assets where
    2: "fst (await (invoke (Call_getAssetMetadataAsync
                          (launch_request updateBundlePath runtimeVersion platform pm))
                  (getAssetMetadataAsync env
                     (launch_request updateBundlePath runtimeVersion platform pm))) (\<lambda>launchAsset.
         resolved
           \<lparr> mf_id = convertSHA256HashToUUID env (md_id md),
             mf_createdAt = md_createdAt md,
             mf_runtimeVersion = runtimeVersion,
             mf_assets = assets,
             mf_launchAsset = launchAsset,
             mf_expoClient = expoConfig \<rparr>)) = Inr m"
    unfolding pm option.case by (rule await_resolves)
  then obtain launchAsset where
    "fst (resolved
           \<lparr> mf_id = convertSHA256HashToUUID env (md_id md),
             mf_createdAt = md_createdAt md,
             mf_runtimeVersion = runtimeVersion,
             mf_assets = assets,
             mf_launchAsset = launchAsset,
             mf_expoClient = expoConfig \<rparr>) = Inr m"
    by (rule await_resolves)
  then show ?thesis by (auto simp add: resolved_def)
qed

lemma manifest_json_id: "get_prop (manifest_json m) ''id'' = Some (JStr (mf_id m))"
  by (simp add: get_prop_def manifest_json_def)

text \<open>
  Claim C9. Whenever a GET request that resolves to a NORMAL bundle is answered with a
  form, the first part is the \<^verbatim>\<open>manifest\<close> part and its body is the serialization of a
  manifest whose \<^verbatim>\<open>id\<close> member is the identifier that the shortcut compares with, the
  UUID derived from the hash in the bundle's metadata: every
  request under protocol version 1 that resolves to the same bundle and sends this
  \<^verbatim>\<open>id\<close> as \<^verbatim>\<open>expo-current-update-id\<close> gets the no-update message, and the manifest is not
  assembled again.
\<close>

theorem served_id_takes_shortcut:
  assumes "resolves_to env req1 NORMAL_UPDATE updateBundlePath runtimeVersion platform1"
    and "GET env req1 = (Inr resp1, t1)"
    and "resp_body resp1 = Form boundary parts"
  shows "\<exists>md m p ps.
    getMetadataAsync env updateBundlePath runtimeVersion = Inr md
    \<and> parts = p # ps \<and> part_name p = ''manifest''
    \<and> part_body p = JSON_stringify (manifest_json m)
    \<and> get_prop (manifest_json m) ''id'' = Some (JStr (convertSHA256HashToUUID env (md_id md)))
    \<and> (\<forall>req2 platform2.
          resolves_to env req2 NORMAL_UPDATE updateBundlePath runtimeVersion platform2
          \<and> protocolVersion_of req2 = Num 1
          \<and> req_headers req2 ''expo-current-update-id'' =
              Some (convertSHA256HashToUUID env (md_id md)) \<longrightarrow>
          GET env req2 =
            (Inr no_update_message_response,
             [Call_getLatestUpdateBundlePathForRuntimeVersionAsync runtimeVersion,
              Call_readdir updateBundlePath,
              Call_getMetadataAsync updateBundlePath runtimeVersion]))"
proof -
  note G = GET_resolved [OF assms(1)]
  let ?pv = "protocolVersion_of req1"
  obtain md where md: "getMetadataAsync env updateBundlePath runtimeVersion = Inr md"
  proof (cases "getMetadataAsync env updateBundlePath runtimeVersion")
    case (Inl msg)
    then have "resp1 = error_response 404 msg"
      using assms(2) by (auto simp add: G putUpdateInResponseAsync_def catch_block_def error_message_def)
    then show ?thesis using assms(3) by simp
  next
    case (Inr md)
    then show ?thesis using that by simp
  qed
  have no_shortcut: "\<not> (req_headers req1 ''expo-current-update-id'' =
      Some (convertSHA256HashToUUID env (md_id md)) \<and> ?pv = Num 1)"
  proof
    assume "req_headers req1 ''expo-current-update-id'' =
      Some (convertSHA256HashToUUID env (md_id md)) \<and> ?pv = Num 1"
    then have "resp1 = no_update_message_response"
      using assms(2) by (auto simp add: G putUpdate_shortcut [OF md])
    then show False using assms(3) by simp
  qed
  note F = putUpdate_full [OF md no_shortcut]
  obtain a ta where A: "assembleManifest env updateBundlePath runtimeVersion platform1 md = (a, ta)"
    by (cases "assembleManifest env updateBundlePath runtimeVersion platform1 md")
  obtain m where m: "a = Inr m"
  proof (cases a)
    case (Inl e)
    then obtain msg where "e = Error msg"
      using assembleManifest_rejects A by blast
    then have "resp1 = error_response 404 msg"
      using assms(2) Inl by (auto simp add: G F A catch_block_def error_message_def)
    then show ?thesis using assms(3) by simp
  next
    case (Inr m)
    then show ?thesis using that by simp
  qed
  obtain signature where resp: "resp1 = manifest_response env ?pv m signature"
  proof (cases rule: sign_and_frame_manifest_cases [of req1 env ?pv m])
    case not_requested
    then show ?thesis using that assms(2) by (auto simp add: G F A m)
  next
    case (rejects msg)
    then have "resp1 = error_response 404 msg"
      using assms(2) by (auto simp add: G F A m catch_block_def error_message_def)
    then show ?thesis using assms(3) by simp
  next
    case (no_key privateKey)
    then have "resp1 = no_key_response"
      using assms(2) by (auto simp add: G F A m)
    then show ?thesis using assms(3) by simp
  next
    case (signed key)
    then show ?thesis using that assms(2) by (auto simp add: G F A m)
  qed
  have id: "mf_id m = convertSHA256HashToUUID env (md_id md)"
    using A m by (simp add: assembleManifest_id)
  have parts: "parts =
       [\<lparr> part_name = ''manifest'',
          part_body = JSON_stringify (manifest_json m),
          part_contentType = ''application/json'',
          part_header = payload_header signature \<rparr>,
        \<lparr> part_name = ''extensions'',
          part_body = JSON_stringify (JObj [(''assetRequestHeaders'',
            JObj (assetRequestHeaders_of (mf_assets m @ [mf_launchAsset m])))]),
          part_contentType = ''application/json'',
          part_header = [] \<rparr>]"
    using assms(3) resp by (simp add: manifest_response_body)
  have shortcut: "GET env req2 =
            (Inr no_update_message_response,
             [Call_getLatestUpdateBundlePathForRuntimeVersionAsync runtimeVersion,
              Call_readdir updateBundlePath,
              Call_getMetadataAsync updateBundlePath runtimeVersion])"
    if "resolves_to env req2 NORMAL_UPDATE updateBundlePath runtimeVersion platform2"
      and "protocolVersion_of req2 = Num 1"
      and "req_headers req2 ''expo-current-update-id'' =
        Some (convertSHA256HashToUUID env (md_id md))"
    for req2 platform2
    using that(2,3) by (simp add: GET_resolved [OF that(1)] putUpdate_shortcut [OF md])
  have "parts = hd parts # tl parts" "part_name (hd parts) = ''manifest''"
    "part_body (hd parts) = JSON_stringify (manifest_json m)"
    using parts by simp_all
  moreover have "get_prop (manifest_json m) ''id'' =
      Some (JStr (convertSHA256HashToUUID env (md_id md)))"
    using manifest_json_id [of m] id by simp
  ultimately show ?thesis
    using md shortcut by blast
qed

theorem served_id_takes_shortcut_witness:
  "GET (demo_env [''metadata.json''] None)
     (demo_request [(''expo-protocol-version'', ''1''), (''expo-platform'', ''android''),
        (''expo-runtime-version'', ''1.0.0''),
        (''expo-current-update-id'', ''uuid-9f86d081884c7d65'')]) =
   (Inr no_update_message_response,
    [Call_getLatestUpdateBundlePathForRuntimeVersionAsync ''1.0.0'',
     Call_readdir ''updates/1.0.0/1'',
     Call_getMetadataAsync ''updates/1.0.0/1'' ''1.0.0''])"
proof -
  let ?env = "demo_env [''metadata.json''] None"
  let ?hs1 = "[(''expo-protocol-version'', ''0''), (''expo-platform'', ''ios''),
        (''expo-runtime-version'', ''1.0.0'')]"
  let ?req2 = "demo_request [(''expo-protocol-version'', ''1''), (''expo-platform'', ''android''),
        (''expo-runtime-version'', ''1.0.0''),
        (''expo-current-update-id'', ''uuid-9f86d081884c7d65'')]"
  have r1: "resolves_to ?env (demo_request ?hs1) NORMAL_UPDATE ''updates/1.0.0/1'' ''1.0.0'' ''ios''"
    by (rule demo_resolves_normal) simp_all
  have g1: "GET ?env (demo_request ?hs1) =
     (Inr (manifest_response ?env (protocolVersion_of (demo_request ?hs1)) demo_manifest None),
      [Call_getLatestUpdateBundlePathForRuntimeVersionAsync ''1.0.0'',
       Call_readdir ''updates/1.0.0/1'',
       Call_getMetadataAsync ''updates/1.0.0/1'' ''1.0.0''] @ demo_assembly_calls)"
    by (rule demo_GET_manifest) simp_all
  have r2: "resolves_to ?env ?req2 NORMAL_UPDATE ''updates/1.0.0/1'' ''1.0.0'' ''android''"
    by (simp add: demo_simps)
  have pv2: "protocolVersion_of ?req2 = Num 1" by (simp add: demo_simps)
  have c2: "req_headers ?req2 ''expo-current-update-id'' =
      Some (convertSHA256HashToUUID ?env (md_id demo_metadata))"
    by (simp add: demo_uuid)
  from served_id_takes_shortcut [OF r1 g1 manifest_response_body]
  obtain md where "getMetadataAsync ?env ''updates/1.0.0/1'' ''1.0.0'' = Inr md"
    and s: "\<forall>req2 platform2.
          resolves_to ?env req2 NORMAL_UPDATE ''updates/1.0.0/1'' ''1.0.0'' platform2
          \<and> protocolVersion_of req2 = Num 1
          \<and> req_headers req2 ''expo-current-update-id'' =
              Some (convertSHA256HashToUUID ?env (md_id md)) \<longrightarrow>
          GET ?env req2 =
            (Inr no_update_message_response,
             [Call_getLatestUpdateBundlePathForRuntimeVersionAsync ''1.0.0'',
              Call_readdir ''updates/1.0.0/1'',
              Call_getMetadataAsync ''updates/1.0.0/1'' ''1.0.0''])"
    by blast
  then have "md = demo_metadata" by (simp add: demo_getMetadata)
  then show ?thesis using s r2 pv2 c2 by blast
qed

section \<open>Validation of the request\<close>

text \<open>
  The checks of lines 35-49: a platform that is missing, empty or neither \<^verbatim>\<open>ios\<close> nor
  \<^verbatim>\<open>android\<close>, and a runtime version that is missing or empty, are answered with status
  400 before anything is called.
\<close>

lemma GET_rejects_platform_and_runtime_version:
  assumes "req_method req = ''GET''"
  shows
    "(\<not> truthy (platform_of req) \<or>
        (platform_of req \<noteq> Some ''ios'' \<and> platform_of req \<noteq> Some ''android'') \<longrightarrow>
       GET env req =
         (Inr (error_response 400 ''Unsupported platform. Expected either ios or android.''), []))
     \<and> ((platform_of req = Some ''ios'' \<or> platform_of req = Some ''android'')
         \<and> \<not> truthy (runtimeVersion_of req) \<longrightarrow>
       GET env req = (Inr (error_response 400 ''No runtimeVersion provided.''), []))"
  using assms
  by (auto simp add: GET_def resolved_def Array_isArray_def truthy_def split: option.splits)

text \<open>
  Claim C2 fails on the protocol version. The guard of lines 28-33 tests
  \<^verbatim>\<open>Array.isArray\<close> on a string and never fires, and the result of \<^verbatim>\<open>parseInt\<close> is not
  checked: a request whose \<^verbatim>\<open>expo-protocol-version\<close> is \<^verbatim>\<open>abc\<close> (parsed as \<^verbatim>\<open>NaN\<close>) or
  \<^verbatim>\<open>-1\<close> is not answered with status 400; the bundle is resolved and the manifest is
  served with status 200, echoing \<^verbatim>\<open>NaN\<close> or \<^verbatim>\<open>-1\<close> as protocol version.
\<close>

theorem unparsable_protocol_version_is_served:
  "protocolVersion_of
     (demo_request [(''expo-protocol-version'', ''abc''), (''expo-platform'', ''ios''),
        (''expo-runtime-version'', ''1.0.0'')]) = NaN
   \<and> GET (demo_env [''metadata.json''] None)
     (demo_request [(''expo-protocol-version'', ''abc''), (''expo-platform'', ''ios''),
        (''expo-runtime-version'', ''1.0.0'')]) =
     (Inr (manifest_response (demo_env [''metadata.json''] None) NaN demo_manifest None),
      [Call_getLatestUpdateBundlePathForRuntimeVersionAsync ''1.0.0'',
       Call_readdir ''updates/1.0.0/1'',
       Call_getMetadataAsync ''updates/1.0.0/1'' ''1.0.0''] @ demo_assembly_calls)
   \<and> resp_status (manifest_response (demo_env [''metadata.json''] None) NaN demo_manifest None) = 200
   \<and> resp_headers (manifest_response (demo_env [''metadata.json''] None) NaN demo_manifest None) =
       [(''expo-protocol-version'', ''NaN''),
        (''expo-sfv-version'', ''0''),
        (''cache-control'', ''private, max-age=0''),
        (''content-type'', ''multipart/mixed; boundary=--boundary'')]
   \<and> protocolVersion_of
     (demo_request [(''expo-protocol-version'', ''-1''), (''expo-platform'', ''ios''),
        (''expo-runtime-version'', ''1.0.0'')]) = Num (- 1)
   \<and> GET (demo_env [''metadata.json''] None)
     (demo_request [(''expo-protocol-version'', ''-1''), (''expo-platform'', ''ios''),
        (''expo-runtime-version'', ''1.0.0'')]) =
     (Inr (manifest_response (demo_env [''metadata.json''] None) (Num (- 1)) demo_manifest None),
      [Call_getLatestUpdateBundlePathForRuntimeVersionAsync ''1.0.0'',
       Call_readdir ''updates/1.0.0/1'',
       Call_getMetadataAsync ''updates/1.0.0/1'' ''1.0.0''] @ demo_assembly_calls)
   \<and> resp_status
       (manifest_response (demo_env [''metadata.json''] None) (Num (- 1)) demo_manifest None) = 200"
proof -
  let ?env = "demo_env [''metadata.json''] None"
  let ?hsa = "[(''expo-protocol-version'', ''abc''), (''expo-platform'', ''ios''),
        (''expo-runtime-version'', ''1.0.0'')]"
  let ?hsm = "[(''expo-protocol-version'', ''-1''), (''expo-platform'', ''ios''),
        (''expo-runtime-version'', ''1.0.0'')]"
  have pa: "protocolVersion_of (demo_request ?hsa) = NaN"
    by (simp add: demo_simps)
  have pm: "protocolVersion_of (demo_request ?hsm) = Num (- 1)"
    by (simp add: demo_simps)
  have ga: "GET ?env (demo_request ?hsa) =
     (Inr (manifest_response ?env (protocolVersion_of (demo_request ?hsa)) demo_manifest None),
      [Call_getLatestUpdateBundlePathForRuntimeVersionAsync ''1.0.0'',
       Call_readdir ''updates/1.0.0/1'',
       Call_getMetadataAsync ''updates/1.0.0/1'' ''1.0.0''] @ demo_assembly_calls)"
    by (rule demo_GET_manifest) simp_all
  have gm: "GET ?env (demo_request ?hsm) =
     (Inr (manifest_response ?env (protocolVersion_of (demo_request ?hsm)) demo_manifest None),
      [Call_getLatestUpdateBundlePathForRuntimeVersionAsync ''1.0.0'',
       Call_readdir ''updates/1.0.0/1'',
       Call_getMetadataAsync ''updates/1.0.0/1'' ''1.0.0''] @ demo_assembly_calls)"
    by (rule demo_GET_manifest) simp_all
  have h: "resp_headers (manifest_response ?env NaN demo_manifest None) =
       [(''expo-protocol-version'', ''NaN''),
        (''expo-sfv-version'', ''0''),
        (''cache-control'', ''private, max-age=0''),
        (''content-type'', ''multipart/mixed; boundary=--boundary'')]"
    by (simp add: manifest_response_def Let_def Number_toString_def demo_directives(3))
  show ?thesis
    using pa pm ga gm h by simp
qed

end
